theory Spec2Isabelle
  imports Complex_Main
begin

section \<open>Floating-point values\<close>

text \<open>
  The numbers of numpy are modelled with the special values of IEEE 754 and exact
  arithmetic on the finite ones: \<open>Fin r\<close> is the finite value \<open>r\<close>, rounding and
  overflow are not modelled (but for \<open>welch_t_test_fp\<close> below, where the rounding of each
  operation is a parameter), and zero has no sign (a division of a non-zero value by
  zero takes the sign of the numerator). numpy's scalars do not raise on a division
  by zero: they return an infinity or NaN, which is what \<open>fdiv\<close> does.
\<close>

datatype npfloat = Fin real | PInf | NInf | NaN

fun is_nan :: "npfloat \<Rightarrow> bool" where
  "is_nan NaN = True"
| "is_nan _ = False"

fun is_fin :: "npfloat \<Rightarrow> bool" where
  "is_fin (Fin _) = True"
| "is_fin _ = False"

fun fneg :: "npfloat \<Rightarrow> npfloat" where
  "fneg (Fin a) = Fin (- a)"
| "fneg PInf = NInf"
| "fneg NInf = PInf"
| "fneg NaN = NaN"

fun fadd :: "npfloat \<Rightarrow> npfloat \<Rightarrow> npfloat" where
  "fadd (Fin a) (Fin b) = Fin (a + b)"
| "fadd (Fin a) PInf = PInf"
| "fadd (Fin a) NInf = NInf"
| "fadd PInf (Fin b) = PInf"
| "fadd NInf (Fin b) = NInf"
| "fadd PInf PInf = PInf"
| "fadd NInf NInf = NInf"
| "fadd PInf NInf = NaN"
| "fadd NInf PInf = NaN"
| "fadd NaN _ = NaN"
| "fadd _ NaN = NaN"

definition fsub :: "npfloat \<Rightarrow> npfloat \<Rightarrow> npfloat" where
  "fsub x y = fadd x (fneg y)"

fun fmul :: "npfloat \<Rightarrow> npfloat \<Rightarrow> npfloat" where
  "fmul (Fin a) (Fin b) = Fin (a * b)"
| "fmul (Fin a) PInf = (if a = 0 then NaN else if 0 < a then PInf else NInf)"
| "fmul (Fin a) NInf = (if a = 0 then NaN else if 0 < a then NInf else PInf)"
| "fmul PInf (Fin b) = (if b = 0 then NaN else if 0 < b then PInf else NInf)"
| "fmul NInf (Fin b) = (if b = 0 then NaN else if 0 < b then NInf else PInf)"
| "fmul PInf PInf = PInf"
| "fmul NInf NInf = PInf"
| "fmul PInf NInf = NInf"
| "fmul NInf PInf = NInf"
| "fmul NaN _ = NaN"
| "fmul _ NaN = NaN"

text \<open>\<open>x**2\<close> on a numpy scalar.\<close>

definition fpow2 :: "npfloat \<Rightarrow> npfloat" where
  "fpow2 x = fmul x x"

fun fdiv :: "npfloat \<Rightarrow> npfloat \<Rightarrow> npfloat" where
  "fdiv (Fin a) (Fin b) =
     (if b = 0 then (if a = 0 then NaN else if 0 < a then PInf else NInf)
      else Fin (a / b))"
| "fdiv (Fin a) PInf = Fin 0"
| "fdiv (Fin a) NInf = Fin 0"
| "fdiv PInf (Fin b) = (if 0 \<le> b then PInf else NInf)"
| "fdiv NInf (Fin b) = (if 0 \<le> b then NInf else PInf)"
| "fdiv PInf PInf = NaN"
| "fdiv PInf NInf = NaN"
| "fdiv NInf PInf = NaN"
| "fdiv NInf NInf = NaN"
| "fdiv NaN _ = NaN"
| "fdiv _ NaN = NaN"

fun fsqrt :: "npfloat \<Rightarrow> npfloat" where
  "fsqrt (Fin a) = (if a < 0 then NaN else Fin (sqrt a))"
| "fsqrt PInf = PInf"
| "fsqrt NInf = NaN"
| "fsqrt NaN = NaN"

text \<open>The comparison \<open><=\<close> of floats: false as soon as one side is NaN.\<close>

fun fle :: "npfloat \<Rightarrow> npfloat \<Rightarrow> bool" where
  "fle (Fin a) (Fin b) = (a \<le> b)"
| "fle (Fin a) PInf = True"
| "fle NInf (Fin b) = True"
| "fle NInf NInf = True"
| "fle NInf PInf = True"
| "fle PInf PInf = True"
| "fle _ _ = False"

text \<open>The sign of a float: 1, -1, or 0 for zero and for NaN.\<close>

fun fsgn :: "npfloat \<Rightarrow> int" where
  "fsgn (Fin a) = (if 0 < a then 1 else if a < 0 then - 1 else 0)"
| "fsgn PInf = 1"
| "fsgn NInf = - 1"
| "fsgn NaN = 0"

fun fsum :: "npfloat list \<Rightarrow> npfloat" where
  "fsum [] = Fin 0"
| "fsum (x # xs) = fadd x (fsum xs)"

text \<open>\<open>np.mean(x)\<close>: the sum over the count (NaN for an empty array).\<close>

definition np_mean :: "npfloat list \<Rightarrow> npfloat" where
  "np_mean xs = fdiv (fsum xs) (Fin (real (length xs)))"

text \<open>
  \<open>np.var(x, ddof=1)\<close>: the sum of the squared deviations from the mean over \<open>n - 1\<close>,
  and \<open>np.std(x, ddof=1)\<close>, its square root.
\<close>

definition np_var :: "npfloat list \<Rightarrow> npfloat" where
  "np_var xs =
     fdiv (fsum (map (\<lambda>x. fpow2 (fsub x (np_mean xs))) xs)) (Fin (real (length xs) - 1))"

definition np_std :: "npfloat list \<Rightarrow> npfloat" where
  "np_std xs = fsqrt (np_var xs)"

section \<open>The numeric primitive\<close>

text \<open>
  The two-sided p-value is the tail of Student's t distribution, which is not
  evaluated here: \<open>TwoSidedT t df\<close> stands for the float that the primitive returns for
  the statistic \<open>t\<close> and \<open>df\<close> degrees of freedom.
\<close>

datatype pvalue = TwoSidedT npfloat npfloat

text \<open>
  \<open>scipy.stats.ttest_ind(a, b, equal_var=False)\<close> is a routine of a library outside
  the repository. It is modelled by its documented definition: Welch's statistic of
  its first argument against its second, \<open>(mean a - mean b) / sqrt (var a / n_a +
  var b / n_b)\<close>, with the degrees of freedom of Welch and Satterthwaite (1 where they
  are undefined) for the p-value.
\<close>

definition unequal_var_ttest_denom ::
  "npfloat \<Rightarrow> nat \<Rightarrow> npfloat \<Rightarrow> nat \<Rightarrow> npfloat \<times> npfloat" where
  "unequal_var_ttest_denom v1 n1 v2 n2 =
     (let vn1 = fdiv v1 (Fin (real n1));
          vn2 = fdiv v2 (Fin (real n2));
          df = fdiv (fpow2 (fadd vn1 vn2))
                 (fadd (fdiv (fpow2 vn1) (Fin (real n1 - 1)))
                       (fdiv (fpow2 vn2) (Fin (real n2 - 1))));
          df' = (if is_nan df then Fin 1 else df);
          denom = fsqrt (fadd vn1 vn2)
      in (df', denom))"

definition ttest_ind :: "npfloat list \<Rightarrow> npfloat list \<Rightarrow> npfloat \<times> pvalue" where
  "ttest_ind a b =
     (let (df, denom) = unequal_var_ttest_denom (np_var a) (length a) (np_var b) (length b);
          d = fsub (np_mean a) (np_mean b);
          t = fdiv d denom
      in (t, TwoSidedT t df))"

section \<open>Exceptions\<close>

text \<open>
  The classes of \<open>exceptions.py\<close>; \<open>Foreign c\<close> is a class \<open>c\<close> of Python or of another
  library, derived from \<open>Exception\<close> and outside the hierarchy of this one. An
  exception carries its class and its message (what \<open>str(e)\<close> gives).
\<close>

datatype exn_class =
    WelchTTestError
  | InvalidDataError
  | InvalidColumnError
  | InsufficientDataError
  | StatisticalError
  | Foreign string

datatype exn = Exn (cls: exn_class) (msg: string)

text \<open>\<open>subclass_of c d\<close>: an instance of class \<open>c\<close> is caught by \<open>except d\<close>.\<close>

fun subclass_of :: "exn_class \<Rightarrow> exn_class \<Rightarrow> bool" where
  "subclass_of (Foreign c) WelchTTestError = False"
| "subclass_of c WelchTTestError = True"
| "subclass_of c InvalidDataError = (c = InvalidDataError \<or> c = InsufficientDataError)"
| "subclass_of c d = (c = d)"

section \<open>The table\<close>

text \<open>
  A row gives, for a column name, the cell of the row read as a group label (\<open>None\<close>
  when the cell is missing) and read as a number (NaN when it is missing). Group
  labels are strings. \<open>columns\<close> are the names of the columns of the table.
\<close>

record row =
  label :: "string \<Rightarrow> string option"
  number :: "string \<Rightarrow> npfloat"

record dataframe =
  columns :: "string list"
  rows :: "row list"

text \<open>\<open>dataframe.empty\<close>: one of the two axes has length 0.\<close>

definition empty_df :: "dataframe \<Rightarrow> bool" where
  "empty_df df = (columns df = [] \<or> rows df = [])"

text \<open>\<open>dataframe[col].nunique()\<close>: the number of distinct values, missing ones left out.\<close>

definition nunique :: "dataframe \<Rightarrow> string \<Rightarrow> nat" where
  "nunique df col = length (remdups (List.map_filter (\<lambda>r. label r col) (rows df)))"

text \<open>\<open>dataframe[dataframe[icol] == v][dcol]\<close>, and \<open>.dropna().values\<close> on it.\<close>

definition select :: "dataframe \<Rightarrow> string \<Rightarrow> string \<Rightarrow> string \<Rightarrow> npfloat list" where
  "select df icol v dcol =
     map (\<lambda>r. number r dcol) (filter (\<lambda>r. label r icol = Some v) (rows df))"

definition dropna :: "npfloat list \<Rightarrow> npfloat list" where
  "dropna xs = filter (\<lambda>x. \<not> is_nan x) xs"

section \<open>Decimal numerals\<close>

definition digit_char :: "nat \<Rightarrow> char" where
  "digit_char d = ''0123456789'' ! d"

function str_nat :: "nat \<Rightarrow> string" where
  "str_nat n = (if n < 10 then [digit_char n] else str_nat (n div 10) @ [digit_char (n mod 10)])"
  by pat_completeness auto
termination
  by (relation "measure id") auto

abbreviation quote :: string where
  "quote \<equiv> [CHR 0x27]"

section \<open>Validation and extraction (utils.py)\<close>

text \<open>
  The two \<open>isinstance\<close> tests of \<open>validate_inputs\<close> hold by the types of the model:
  the first argument is a table and the last one a list.
\<close>

definition validate_inputs :: "dataframe \<Rightarrow> string \<Rightarrow> string \<Rightarrow> string list \<Rightarrow> exn + unit" where
  "validate_inputs df independent_var_col dependent_var_col control_test_values =
     (if empty_df df then Inl (Exn InvalidDataError ''DataFrame is empty'')
      else if independent_var_col \<notin> set (columns df) then
        Inl (Exn InvalidColumnError
          (''Column '' @ quote @ independent_var_col @ quote @ '' not found in dataframe''))
      else if dependent_var_col \<notin> set (columns df) then
        Inl (Exn InvalidColumnError
          (''Column '' @ quote @ dependent_var_col @ quote @ '' not found in dataframe''))
      else if nunique df independent_var_col > 2 then
        Inl (Exn InvalidDataError
          (''Independent variable column has '' @ str_nat (nunique df independent_var_col)
           @ '' distinct values. Only 2 are allowed for t-test.''))
      else if length control_test_values \<noteq> 2 then
        Inl (Exn InvalidDataError
          ''control_test_values must contain exactly 2 values [control_value, test_value]'')
      else Inr ())"

text \<open>
  \<open>control_value, test_value = control_test_values\<close> raises ValueError on a list of
  another length; both entry points have checked the length before.
\<close>

fun extract_groups ::
  "dataframe \<Rightarrow> string \<Rightarrow> string \<Rightarrow> string list
     \<Rightarrow> exn + (npfloat list \<times> npfloat list \<times> string \<times> string)" where
  "extract_groups df independent_var_col dependent_var_col [control_value, test_value] =
     (let control_data = select df independent_var_col control_value dependent_var_col;
          test_data = select df independent_var_col test_value dependent_var_col
      in if length control_data = 0 then
           Inl (Exn InvalidDataError
             (''No data found for control value '' @ quote @ control_value @ quote))
         else if length test_data = 0 then
           Inl (Exn InvalidDataError
             (''No data found for test value '' @ quote @ test_value @ quote))
         else
           let control_vec = dropna control_data;
               test_vec = dropna test_data
           in if length control_vec = 0 then
                Inl (Exn InvalidDataError ''No valid (non-NaN) data in control group'')
              else if length test_vec = 0 then
                Inl (Exn InvalidDataError ''No valid (non-NaN) data in test group'')
              else if length control_vec < 2 then
                Inl (Exn InvalidDataError ''Control group must have at least 2 observations'')
              else if length test_vec < 2 then
                Inl (Exn InvalidDataError ''Test group must have at least 2 observations'')
              else Inr (control_vec, test_vec, control_value, test_value))"
| "extract_groups df independent_var_col dependent_var_col control_test_values =
     Inl (Exn (Foreign ''ValueError'')
       (if length control_test_values < 2 then
          ''not enough values to unpack (expected 2, got ''
            @ str_nat (length control_test_values) @ '')''
        else ''too many values to unpack (expected 2)''))"

section \<open>The statistics and the result (core.py, welch_t_test.py)\<close>

record result =
  t_statistic :: npfloat
  p_value :: pvalue
  degrees_of_freedom :: npfloat
  mean_control :: npfloat
  mean_test :: npfloat
  std_control :: npfloat
  std_test :: npfloat
  n_control :: nat
  n_test :: nat
  mean_difference :: npfloat
  control_value :: string
  test_value :: string

text \<open>
  The lines from \<open>mean_control = np.mean(control_vec)\<close> to the dictionary \<open>results\<close>
  are the same text in \<open>core.py\<close> and in \<open>welch_t_test.py\<close>; \<open>compute_results\<close> is this
  text, applied to what the primitive returned.
\<close>

definition compute_results ::
  "npfloat \<times> pvalue \<Rightarrow> npfloat list \<Rightarrow> npfloat list \<Rightarrow> string \<Rightarrow> string \<Rightarrow> result" where
  "compute_results tp control_vec test_vec control_val test_val =
     (let mean_c = np_mean control_vec;
          mean_t = np_mean test_vec;
          std_c = np_std control_vec;
          std_t = np_std test_vec;
          n_c = length control_vec;
          n_t = length test_vec;
          s1_sq = fpow2 std_c;
          s2_sq = fpow2 std_t;
          df = fdiv (fpow2 (fadd (fdiv s1_sq (Fin (real n_c))) (fdiv s2_sq (Fin (real n_t)))))
                 (fadd (fdiv (fpow2 (fdiv s1_sq (Fin (real n_c)))) (Fin (real n_c - 1)))
                       (fdiv (fpow2 (fdiv s2_sq (Fin (real n_t)))) (Fin (real n_t - 1))))
      in \<lparr> t_statistic = fst tp, p_value = snd tp, degrees_of_freedom = df,
           mean_control = mean_c, mean_test = mean_t,
           std_control = std_c, std_test = std_t,
           n_control = n_c, n_test = n_t,
           mean_difference = fsub mean_t mean_c,
           control_value = control_val, test_value = test_val \<rparr>)"

subsection \<open>The entry point that raises (core.py)\<close>

text \<open>
  The body of the \<open>try\<close>, with the primitive as a parameter that may raise, and the two
  \<open>except\<close> clauses around it.
\<close>

definition welch_body ::
  "(npfloat list \<Rightarrow> npfloat list \<Rightarrow> exn + npfloat \<times> pvalue)
     \<Rightarrow> dataframe \<Rightarrow> string \<Rightarrow> string \<Rightarrow> string list \<Rightarrow> exn + result" where
  "welch_body prim df independent_var_col dependent_var_col control_test_values =
     (case validate_inputs df independent_var_col dependent_var_col control_test_values of
        Inl e \<Rightarrow> Inl e
      | Inr _ \<Rightarrow>
          (case extract_groups df independent_var_col dependent_var_col control_test_values of
             Inl e \<Rightarrow> Inl e
           | Inr (control_vec, test_vec, control_val, test_val) \<Rightarrow>
               (case prim control_vec test_vec of
                  Inl e \<Rightarrow> Inl e
                | Inr tp \<Rightarrow> Inr (compute_results tp control_vec test_vec control_val test_val))))"

definition reraise :: "exn + 'a \<Rightarrow> exn + 'a" where
  "reraise r =
     (case r of
        Inr v \<Rightarrow> Inr v
      | Inl e \<Rightarrow>
          if subclass_of (cls e) InvalidColumnError \<or> subclass_of (cls e) InvalidDataError
          then Inl e
          else Inl (Exn WelchTTestError (''T-test calculation failed: '' @ msg e)))"

definition welch_t_test_with ::
  "(npfloat list \<Rightarrow> npfloat list \<Rightarrow> exn + npfloat \<times> pvalue)
     \<Rightarrow> dataframe \<Rightarrow> string \<Rightarrow> string \<Rightarrow> string list \<Rightarrow> exn + result" where
  "welch_t_test_with prim df independent_var_col dependent_var_col control_test_values =
     reraise (welch_body prim df independent_var_col dependent_var_col control_test_values)"

definition welch_t_test :: "dataframe \<Rightarrow> string \<Rightarrow> string \<Rightarrow> string list \<Rightarrow> exn + result" where
  "welch_t_test = welch_t_test_with (\<lambda>a b. Inr (ttest_ind a b))"

subsection \<open>The permissive variant (welch_t_test.py)\<close>

datatype outcome = ErrorDict string | Results result

definition script_body ::
  "(npfloat list \<Rightarrow> npfloat list \<Rightarrow> exn + npfloat \<times> pvalue)
     \<Rightarrow> dataframe \<Rightarrow> string \<Rightarrow> string \<Rightarrow> string list \<Rightarrow> exn + outcome" where
  "script_body prim df independent_var_col dependent_var_col control_test_values =
     (if independent_var_col \<notin> set (columns df) then
        Inr (ErrorDict
          (''Column '' @ quote @ independent_var_col @ quote @ '' not found in dataframe''))
      else if dependent_var_col \<notin> set (columns df) then
        Inr (ErrorDict
          (''Column '' @ quote @ dependent_var_col @ quote @ '' not found in dataframe''))
      else if nunique df independent_var_col > 2 then
        Inr (ErrorDict
          (''Independent variable column has '' @ str_nat (nunique df independent_var_col)
           @ '' distinct values. Only 2 are allowed for t-test.''))
      else if length control_test_values \<noteq> 2 then
        Inr (ErrorDict
          ''control_test_values must contain exactly 2 values [control_value, test_value]'')
      else
        let control_val = control_test_values ! 0;
            test_val = control_test_values ! 1;
            control_data = select df independent_var_col control_val dependent_var_col;
            test_data = select df independent_var_col test_val dependent_var_col
        in if length control_data = 0 then
             Inr (ErrorDict (''No data found for control value '' @ quote @ control_val @ quote))
           else if length test_data = 0 then
             Inr (ErrorDict (''No data found for test value '' @ quote @ test_val @ quote))
           else
             let control_vec = dropna control_data;
                 test_vec = dropna test_data
             in if length control_vec = 0 then
                  Inr (ErrorDict ''No valid (non-NaN) data in control group'')
                else if length test_vec = 0 then
                  Inr (ErrorDict ''No valid (non-NaN) data in test group'')
                else
                  (case prim control_vec test_vec of
                     Inl e \<Rightarrow> Inl e
                   | Inr tp \<Rightarrow>
                       Inr (Results
                         (compute_results tp control_vec test_vec control_val test_val))))"

definition welch_t_test_script_with ::
  "(npfloat list \<Rightarrow> npfloat list \<Rightarrow> exn + npfloat \<times> pvalue)
     \<Rightarrow> dataframe \<Rightarrow> string \<Rightarrow> string \<Rightarrow> string list \<Rightarrow> exn + outcome" where
  "welch_t_test_script_with prim df independent_var_col dependent_var_col control_test_values =
     (case script_body prim df independent_var_col dependent_var_col control_test_values of
        Inr d \<Rightarrow> Inr d
      | Inl e \<Rightarrow> Inr (ErrorDict (''An error occurred: '' @ msg e)))"

definition welch_t_test_script ::
  "dataframe \<Rightarrow> string \<Rightarrow> string \<Rightarrow> string list \<Rightarrow> exn + outcome" where
  "welch_t_test_script = welch_t_test_script_with (\<lambda>a b. Inr (ttest_ind a b))"

subsection \<open>The entry point with the rounding of its arithmetic\<close>

text \<open>
  The definitions above compute on the finite values exactly. Here the rounding of the
  floating-point operations that \<open>core.py\<close> itself performs is written out: \<open>rnd\<close> maps
  the exact result of one operation to the float that the operation returns, and
  \<open>fround rnd\<close> applies it to a finite value. \<open>np.mean\<close> and \<open>np.std\<close>, which are numpy's,
  are the parameters \<open>mean\<close> and \<open>std\<close>: what they return in floating point. The counts
  and \<open>n - 1\<close> are integers, which convert to floats exactly.
\<close>

fun fround :: "(real \<Rightarrow> real) \<Rightarrow> npfloat \<Rightarrow> npfloat" where
  "fround rnd (Fin a) = Fin (rnd a)"
| "fround rnd PInf = PInf"
| "fround rnd NInf = NInf"
| "fround rnd NaN = NaN"

text \<open>
  \<open>s1_sq = std_control**2\<close>, \<open>s2_sq = std_test**2\<close> and \<open>df = (s1_sq/n_control +
  s2_sq/n_test)**2 / ((s1_sq/n_control)**2/(n_control-1) + (s2_sq/n_test)**2/(n_test-1))\<close>,
  one rounding after each operation.
\<close>

definition welch_df_fp :: "(real \<Rightarrow> real) \<Rightarrow> npfloat \<Rightarrow> nat \<Rightarrow> npfloat \<Rightarrow> nat \<Rightarrow> npfloat" where
  "welch_df_fp rnd std_c n_c std_t n_t =
     (let s1_sq = fround rnd (fpow2 std_c);
          s2_sq = fround rnd (fpow2 std_t);
          vn1 = fround rnd (fdiv s1_sq (Fin (real n_c)));
          vn2 = fround rnd (fdiv s2_sq (Fin (real n_t)))
      in fround rnd
           (fdiv (fround rnd (fpow2 (fround rnd (fadd vn1 vn2))))
              (fround rnd
                 (fadd (fround rnd (fdiv (fround rnd (fpow2 vn1)) (Fin (real n_c - 1))))
                       (fround rnd (fdiv (fround rnd (fpow2 vn2)) (Fin (real n_t - 1))))))))"

text \<open>
  \<open>rel_err u rnd x\<close>: the rounding of the exact result \<open>x\<close> has a relative error of at most
  \<open>u\<close>. It holds of every operation on doubles that neither overflows nor underflows, with
  the unit roundoff for \<open>u\<close>. \<open>df_operands\<close> are the exact results that \<open>welch_df_fp\<close> rounds,
  in the order of the operations, for two finite standard deviations.
\<close>

definition rel_err :: "real \<Rightarrow> (real \<Rightarrow> real) \<Rightarrow> real \<Rightarrow> bool" where
  "rel_err u rnd x = (\<bar>rnd x - x\<bar> \<le> u * \<bar>x\<bar>)"

definition df_operands :: "(real \<Rightarrow> real) \<Rightarrow> real \<Rightarrow> nat \<Rightarrow> real \<Rightarrow> nat \<Rightarrow> real list" where
  "df_operands rnd s1 n1 s2 n2 =
     (let s1_sq = rnd (s1 * s1);
          s2_sq = rnd (s2 * s2);
          vn1 = rnd (s1_sq / real n1);
          vn2 = rnd (s2_sq / real n2);
          num = rnd (rnd (vn1 + vn2) * rnd (vn1 + vn2));
          x = rnd (rnd (vn1 * vn1) / (real n1 - 1));
          y = rnd (rnd (vn2 * vn2) / (real n2 - 1));
          den = rnd (x + y)
      in [s1 * s1, s2 * s2, s1_sq / real n1, s2_sq / real n2,
          vn1 + vn2, rnd (vn1 + vn2) * rnd (vn1 + vn2),
          vn1 * vn1, rnd (vn1 * vn1) / (real n1 - 1),
          vn2 * vn2, rnd (vn2 * vn2) / (real n2 - 1),
          x + y, num / den])"

definition compute_results_fp ::
  "(real \<Rightarrow> real) \<Rightarrow> (npfloat list \<Rightarrow> npfloat) \<Rightarrow> (npfloat list \<Rightarrow> npfloat)
     \<Rightarrow> npfloat \<times> pvalue \<Rightarrow> npfloat list \<Rightarrow> npfloat list \<Rightarrow> string \<Rightarrow> string \<Rightarrow> result" where
  "compute_results_fp rnd mean std tp control_vec test_vec control_val test_val =
     (let mean_c = mean control_vec;
          mean_t = mean test_vec;
          std_c = std control_vec;
          std_t = std test_vec;
          n_c = length control_vec;
          n_t = length test_vec;
          df = welch_df_fp rnd std_c n_c std_t n_t
      in \<lparr> t_statistic = fst tp, p_value = snd tp, degrees_of_freedom = df,
           mean_control = mean_c, mean_test = mean_t,
           std_control = std_c, std_test = std_t,
           n_control = n_c, n_test = n_t,
           mean_difference = fround rnd (fsub mean_t mean_c),
           control_value = control_val, test_value = test_val \<rparr>)"

definition welch_t_test_fp ::
  "(real \<Rightarrow> real) \<Rightarrow> (npfloat list \<Rightarrow> npfloat) \<Rightarrow> (npfloat list \<Rightarrow> npfloat)
     \<Rightarrow> (npfloat list \<Rightarrow> npfloat list \<Rightarrow> exn + npfloat \<times> pvalue)
     \<Rightarrow> dataframe \<Rightarrow> string \<Rightarrow> string \<Rightarrow> string list \<Rightarrow> exn + result" where
  "welch_t_test_fp rnd mean std prim df independent_var_col dependent_var_col control_test_values =
     reraise
       (case validate_inputs df independent_var_col dependent_var_col control_test_values of
          Inl e \<Rightarrow> Inl e
        | Inr _ \<Rightarrow>
            (case extract_groups df independent_var_col dependent_var_col control_test_values of
               Inl e \<Rightarrow> Inl e
             | Inr (control_vec, test_vec, control_val, test_val) \<Rightarrow>
                 (case prim control_vec test_vec of
                    Inl e \<Rightarrow> Inl e
                  | Inr tp \<Rightarrow>
                      Inr (compute_results_fp rnd mean std tp control_vec test_vec
                             control_val test_val))))"

section \<open>The formulas of the specification\<close>

text \<open>
  The group of a value: the cells of the dependent column on the rows of that value,
  missing cells dropped. It is what \<open>extract_groups\<close> returns for the value.
\<close>

definition group :: "dataframe \<Rightarrow> string \<Rightarrow> string \<Rightarrow> string \<Rightarrow> npfloat list" where
  "group df icol dcol v = dropna (select df icol v dcol)"

text \<open>
  The degrees of freedom of Welch and Satterthwaite as the specification writes them,
  \<open>df = (s1^2/n1 + s2^2/n2)^2 / ((s1^2/n1)^2/(n1 - 1) + (s2^2/n2)^2/(n2 - 1))\<close>,
  for two sample variances and two counts.
\<close>

definition welch_satterthwaite :: "npfloat \<Rightarrow> nat \<Rightarrow> npfloat \<Rightarrow> nat \<Rightarrow> npfloat" where
  "welch_satterthwaite s1_sq n1 s2_sq n2 =
     fdiv (fpow2 (fadd (fdiv s1_sq (Fin (real n1))) (fdiv s2_sq (Fin (real n2)))))
          (fadd (fdiv (fpow2 (fdiv s1_sq (Fin (real n1)))) (Fin (real n1 - 1)))
                (fdiv (fpow2 (fdiv s2_sq (Fin (real n2)))) (Fin (real n2 - 1))))"

text \<open>
  The statistic as the specification writes it, \<open>(m1 - m2) / sqrt (s1^2/n1 + s2^2/n2)\<close>,
  for the two means in the order given, the two standard deviations and the two counts.
\<close>

definition welch_statistic ::
  "npfloat \<Rightarrow> npfloat \<Rightarrow> npfloat \<Rightarrow> nat \<Rightarrow> npfloat \<Rightarrow> nat \<Rightarrow> npfloat" where
  "welch_statistic m1 m2 s1 n1 s2 n2 =
     fdiv (fsub m1 m2)
       (fsqrt (fadd (fdiv (fpow2 s1) (Fin (real n1))) (fdiv (fpow2 s2) (Fin (real n2)))))"

text \<open>Floats that are not negative: a sum of squares is one of them, also when it is NaN.\<close>

fun fnonneg :: "npfloat \<Rightarrow> bool" where
  "fnonneg (Fin a) = (0 \<le> a)"
| "fnonneg PInf = True"
| "fnonneg NInf = False"
| "fnonneg NaN = True"

section \<open>Example tables\<close>

text \<open>
  Tables with the two columns \<open>group\<close> and \<open>value\<close>, given by the list of their rows.
\<close>

definition mk_row :: "string option \<Rightarrow> npfloat \<Rightarrow> row" where
  "mk_row g v = \<lparr> label = (\<lambda>c. if c = ''group'' then g else None),
                 number = (\<lambda>c. if c = ''value'' then v else NaN) \<rparr>"

definition mk_df :: "(string option \<times> npfloat) list \<Rightarrow> dataframe" where
  "mk_df cells = \<lparr> columns = [''group'', ''value''], rows = map (\<lambda>(g, v). mk_row g v) cells \<rparr>"

text \<open>Control 0, 6 and test 10, 18: all the statistics are rational but the deviations.\<close>

definition ex_df :: dataframe where
  "ex_df = mk_df [(Some ''control'', Fin 0), (Some ''control'', Fin 6),
                  (Some ''test'', Fin 10), (Some ''test'', Fin 18)]"

definition ex_result :: result where
  "ex_result = \<lparr> t_statistic = Fin (- (11 / 5)),
                 p_value = TwoSidedT (Fin (- (11 / 5))) (Fin (625 / 337)),
                 degrees_of_freedom = Fin (625 / 337),
                 mean_control = Fin 3, mean_test = Fin 14,
                 std_control = Fin (sqrt 18), std_test = Fin (sqrt 32),
                 n_control = 2, n_test = 2,
                 mean_difference = Fin 11,
                 control_value = ''control'', test_value = ''test'' \<rparr>"

text \<open>
  The result on the same table when each operation of \<open>core.py\<close> errs upwards by one eighth.
\<close>

definition ex_result_fp :: result where
  "ex_result_fp =
     compute_results_fp (\<lambda>x. x * (9 / 8)) np_mean np_std
       (ttest_ind [Fin 0, Fin 6] [Fin 10, Fin 18]) [Fin 0, Fin 6] [Fin 10, Fin 18]
       ''control'' ''test''"

text \<open>Both groups constant and equal: control 5, 5, 5 and test 5, 5, 5.\<close>

definition const_df :: dataframe where
  "const_df = mk_df [(Some ''control'', Fin 5), (Some ''control'', Fin 5), (Some ''control'', Fin 5),
                     (Some ''test'', Fin 5), (Some ''test'', Fin 5), (Some ''test'', Fin 5)]"

definition const_result :: result where
  "const_result = \<lparr> t_statistic = NaN, p_value = TwoSidedT NaN (Fin 1),
                    degrees_of_freedom = NaN,
                    mean_control = Fin 5, mean_test = Fin 5,
                    std_control = Fin 0, std_test = Fin 0,
                    n_control = 3, n_test = 3,
                    mean_difference = Fin 0,
                    control_value = ''control'', test_value = ''test'' \<rparr>"

text \<open>Both groups constant with different means: control 5, 5 and test 7, 7.\<close>

definition zero_df :: dataframe where
  "zero_df = mk_df [(Some ''control'', Fin 5), (Some ''control'', Fin 5),
                    (Some ''test'', Fin 7), (Some ''test'', Fin 7)]"

definition zero_result :: result where
  "zero_result = \<lparr> t_statistic = NInf, p_value = TwoSidedT NInf (Fin 1),
                   degrees_of_freedom = NaN,
                   mean_control = Fin 5, mean_test = Fin 7,
                   std_control = Fin 0, std_test = Fin 0,
                   n_control = 2, n_test = 2,
                   mean_difference = Fin 2,
                   control_value = ''control'', test_value = ''test'' \<rparr>"

text \<open>
  One observation in the control group: with a test group whose only cell is missing
  (\<open>lone_df\<close>), and with a test group of two observations (\<open>short_df\<close>).
\<close>

definition lone_df :: dataframe where
  "lone_df = mk_df [(Some ''control'', Fin 1), (Some ''test'', NaN)]"

definition short_df :: dataframe where
  "short_df = mk_df [(Some ''control'', Fin 1), (Some ''test'', Fin 2), (Some ''test'', Fin 3)]"

text \<open>Three distinct values in the grouping column.\<close>

definition three_df :: dataframe where
  "three_df = mk_df [(Some ''a'', Fin 1), (Some ''b'', Fin 2), (Some ''c'', Fin 3)]"

text \<open>A primitive that raises an exception of a class outside the library.\<close>

definition failing_prim :: "npfloat list \<Rightarrow> npfloat list \<Rightarrow> exn + npfloat \<times> pvalue" where
  "failing_prim a b = Inl (Exn (Foreign ''ValueError'') ''bad input'')"

section \<open>Lemmas on the floats\<close>

lemma fnonneg_fpow2: "fnonneg (fpow2 x)"
  by (cases x) (simp_all add: fpow2_def)

lemma fnonneg_fadd: "fnonneg a \<Longrightarrow> fnonneg b \<Longrightarrow> fnonneg (fadd a b)"
  by (cases a; cases b) simp_all

lemma fnonneg_fsum: "(\<And>x. x \<in> set xs \<Longrightarrow> fnonneg x) \<Longrightarrow> fnonneg (fsum xs)"
  by (induction xs) (simp_all add: fnonneg_fadd)

lemma fnonneg_fdiv: "fnonneg a \<Longrightarrow> 0 \<le> k \<Longrightarrow> fnonneg (fdiv a (Fin k))"
  by (cases a) simp_all

lemma fnonneg_np_var: "fnonneg (np_var xs)"
proof (cases xs)
  case Nil
  then show ?thesis by (simp add: np_var_def)
next
  case (Cons y ys)
  have "fnonneg (fsum (map (\<lambda>x. fpow2 (fsub x (np_mean xs))) xs))"
    by (rule fnonneg_fsum) (auto simp: fnonneg_fpow2)
  moreover have "0 \<le> real (length xs) - 1" using Cons by simp
  ultimately show ?thesis unfolding np_var_def by (rule fnonneg_fdiv)
qed

lemma fpow2_fsqrt: "fnonneg v \<Longrightarrow> fpow2 (fsqrt v) = v"
  by (cases v) (simp_all add: fpow2_def)

lemma fpow2_np_std: "fpow2 (np_std xs) = np_var xs"
  unfolding np_std_def by (rule fpow2_fsqrt) (rule fnonneg_np_var)

lemma is_fin_fadd: "is_fin a \<Longrightarrow> is_fin b \<Longrightarrow> is_fin (fadd a b)"
  by (cases a; cases b) simp_all

lemma is_fin_fsub: "is_fin a \<Longrightarrow> is_fin b \<Longrightarrow> is_fin (fsub a b)"
  by (cases a; cases b) (simp_all add: fsub_def)

lemma is_fin_fpow2: "is_fin a \<Longrightarrow> is_fin (fpow2 a)"
  by (cases a) (simp_all add: fpow2_def)

lemma is_fin_fdiv: "is_fin a \<Longrightarrow> k \<noteq> 0 \<Longrightarrow> is_fin (fdiv a (Fin k))"
  by (cases a) simp_all

lemma is_fin_fsum: "list_all is_fin xs \<Longrightarrow> is_fin (fsum xs)"
  by (induction xs) (simp_all add: is_fin_fadd)

lemma is_fin_np_mean: "list_all is_fin xs \<Longrightarrow> xs \<noteq> [] \<Longrightarrow> is_fin (np_mean xs)"
  unfolding np_mean_def by (rule is_fin_fdiv) (simp_all add: is_fin_fsum)

lemma is_fin_np_var:
  assumes "list_all is_fin xs" and "2 \<le> length xs"
  shows "is_fin (np_var xs)"
proof -
  have ne: "xs \<noteq> []" using assms(2) by auto
  have m: "is_fin (np_mean xs)" using assms(1) ne by (rule is_fin_np_mean)
  have "list_all is_fin (map (\<lambda>x. fpow2 (fsub x (np_mean xs))) xs)"
    using assms(1) m by (simp add: list_all_iff is_fin_fpow2 is_fin_fsub)
  then have "is_fin (fsum (map (\<lambda>x. fpow2 (fsub x (np_mean xs))) xs))"
    by (rule is_fin_fsum)
  moreover have "real (length xs) - 1 \<noteq> 0" using assms(2) by simp
  ultimately show ?thesis unfolding np_var_def by (rule is_fin_fdiv)
qed

lemma is_fin_obtain: "is_fin x \<Longrightarrow> \<exists>r. x = Fin r"
  by (cases x) simp_all

lemma np_var_finite:
  assumes "list_all is_fin xs" and "2 \<le> length xs"
  shows "\<exists>v. np_var xs = Fin v \<and> 0 \<le> v"
proof -
  from is_fin_np_var[OF assms] obtain v where v: "np_var xs = Fin v"
    using is_fin_obtain by blast
  moreover have "fnonneg (np_var xs)" by (rule fnonneg_np_var)
  ultimately show ?thesis by simp
qed

lemma fneg_fsub: "fneg (fsub a b) = fsub b a"
  by (cases a; cases b) (simp_all add: fsub_def)

lemma fneg_fdiv: "fneg (fdiv x d) = fdiv (fneg x) d"
  by (cases x; cases d) auto

lemma welch_statistic_swap:
  "welch_statistic m1 m2 s1 n1 s2 n2 = fneg (welch_statistic m2 m1 s1 n1 s2 n2)"
  by (simp add: welch_statistic_def fneg_fdiv fneg_fsub)

lemma fsgn_quotient:
  assumes "0 \<le> d"
  shows "fsgn (fdiv (Fin (a - b)) (Fin d)) = - fsgn (Fin (b - a))"
  using assms by (auto simp: zero_less_divide_iff divide_less_0_iff)

section \<open>The bounds of Welch and Satterthwaite on the reals\<close>

lemma welch_df_lower:
  fixes a b p q :: real
  assumes a: "0 \<le> a" and b: "0 \<le> b" and ab: "0 < a + b" and p: "1 \<le> p" and q: "1 \<le> q"
  shows "min p q \<le> (a + b) * (a + b) / (a * a / p + b * b / q)"
proof -
  have D: "0 < a * a / p + b * b / q"
  proof (cases "0 < a")
    case True
    then have "0 < a * a / p" using p by simp
    moreover have "0 \<le> b * b / q" using q by simp
    ultimately show ?thesis by linarith
  next
    case False
    then have "0 < b" using a ab by linarith
    then have "0 < b * b / q" using q by simp
    moreover have "0 \<le> a * a / p" using p by simp
    ultimately show ?thesis by linarith
  qed
  have m0: "0 \<le> min p q" using p q by simp
  have "min p q * (a * a / p) = (a * a) * (min p q / p)" by simp
  also have "\<dots> \<le> (a * a) * 1"
    by (rule mult_left_mono) (use p in \<open>simp_all add: divide_le_eq\<close>)
  finally have 1: "min p q * (a * a / p) \<le> a * a" by simp
  have "min p q * (b * b / q) = (b * b) * (min p q / q)" by simp
  also have "\<dots> \<le> (b * b) * 1"
    by (rule mult_left_mono) (use q in \<open>simp_all add: divide_le_eq\<close>)
  finally have 2: "min p q * (b * b / q) \<le> b * b" by simp
  have "0 \<le> a * b" using a b by simp
  then have 3: "a * a + b * b \<le> (a + b) * (a + b)" by (simp add: algebra_simps)
  have "min p q * (a * a / p + b * b / q) \<le> (a + b) * (a + b)"
    using 1 2 3 by (simp add: distrib_left)
  then show ?thesis using D by (simp add: pos_le_divide_eq)
qed

lemma welch_df_upper:
  fixes a b p q :: real
  assumes a: "0 \<le> a" and b: "0 \<le> b" and ab: "0 < a + b" and p: "1 \<le> p" and q: "1 \<le> q"
  shows "(a + b) * (a + b) / (a * a / p + b * b / q) \<le> p + q"
proof -
  have D: "0 < a * a / p + b * b / q"
  proof (cases "0 < a")
    case True
    then have "0 < a * a / p" using p by simp
    moreover have "0 \<le> b * b / q" using q by simp
    ultimately show ?thesis by linarith
  next
    case False
    then have "0 < b" using a ab by linarith
    then have "0 < b * b / q" using q by simp
    moreover have "0 \<le> a * a / p" using p by simp
    ultimately show ?thesis by linarith
  qed
  have p0: "p \<noteq> 0" and q0: "q \<noteq> 0" using p q by auto
  have pq: "0 < p * q" using p q by simp
  have "(p + q) * (a * a / p + b * b / q) - (a + b) * (a + b)
          = (q * a - p * b) * (q * a - p * b) / (p * q)"
    using p0 q0 by (simp add: field_simps)
  also have "0 \<le> \<dots>" using pq by simp
  finally have "(a + b) * (a + b) \<le> (p + q) * (a * a / p + b * b / q)" by simp
  then show ?thesis using D by (simp add: pos_divide_le_eq)
qed

text \<open>
  The same bounds when every operation is rounded with a relative error of at most \<open>u\<close>:
  all the intermediate values are non-negative, so the errors multiply.
\<close>

lemma rel_err_lower: "rel_err u rnd x \<Longrightarrow> 0 \<le> x \<Longrightarrow> x * (1 - u) \<le> rnd x"
proof -
  assume "rel_err u rnd x" and x: "0 \<le> x"
  then have "\<bar>rnd x - x\<bar> \<le> u * x" by (simp add: rel_err_def)
  then have "x - u * x \<le> rnd x" by linarith
  then show ?thesis by (simp add: algebra_simps)
qed

lemma rel_err_upper: "rel_err u rnd x \<Longrightarrow> 0 \<le> x \<Longrightarrow> rnd x \<le> x * (1 + u)"
proof -
  assume "rel_err u rnd x" and x: "0 \<le> x"
  then have "\<bar>rnd x - x\<bar> \<le> u * x" by (simp add: rel_err_def)
  then have "rnd x \<le> x + u * x" by linarith
  then show ?thesis by (simp add: algebra_simps)
qed

lemma rel_err_nonneg:
  assumes e: "rel_err u rnd x" and u1: "u < 1" and x: "0 \<le> x"
  shows "0 \<le> rnd x"
proof -
  have "0 \<le> x * (1 - u)" using x u1 by simp
  with rel_err_lower[OF e x] show ?thesis by linarith
qed

lemma rel_err_pos:
  assumes e: "rel_err u rnd x" and u1: "u < 1" and x: "0 < x"
  shows "0 < rnd x"
proof -
  have "0 < x * (1 - u)" using x u1 by simp
  moreover have "x * (1 - u) \<le> rnd x" using rel_err_lower[OF e] x by simp
  ultimately show ?thesis by linarith
qed

lemma rel_err_square_term:
  fixes z r :: real
  assumes u0: "0 \<le> u" and u1: "u < 1" and r: "1 \<le> r"
    and e1: "rel_err u rnd (z * z)" and e2: "rel_err u rnd (rnd (z * z) / r)"
  shows "z * z / r * (1 - u) ^ 2 \<le> rnd (rnd (z * z) / r)"
    and "rnd (rnd (z * z) / r) \<le> z * z / r * (1 + u) ^ 2"
proof -
  define L where "L = 1 - u"
  define U where "U = 1 + u"
  have L: "0 < L" and U: "0 < U" using u0 u1 by (simp_all add: L_def U_def)
  have zz: "0 \<le> z * z" by simp
  have r0: "0 < r" using r by simp
  have s0: "0 \<le> rnd (z * z)" by (rule rel_err_nonneg[OF e1 u1 zz])
  have d0: "0 \<le> rnd (z * z) / r" using s0 r0 by simp
  have "z * z / r * L ^ 2 = (z * z * L) / r * L" by (simp add: power2_eq_square)
  also have "\<dots> \<le> rnd (z * z) / r * L"
    using rel_err_lower[OF e1 zz] r0 L by (simp add: divide_right_mono mult_right_mono L_def)
  also have "\<dots> \<le> rnd (rnd (z * z) / r)"
    unfolding L_def by (rule rel_err_lower[OF e2 d0])
  finally show "z * z / r * (1 - u) ^ 2 \<le> rnd (rnd (z * z) / r)" by (simp add: L_def)
  have "rnd (rnd (z * z) / r) \<le> rnd (z * z) / r * U"
    unfolding U_def by (rule rel_err_upper[OF e2 d0])
  also have "\<dots> \<le> (z * z * U) / r * U"
    using rel_err_upper[OF e1 zz] r0 U by (simp add: divide_right_mono mult_right_mono U_def)
  also have "\<dots> = z * z / r * U ^ 2" by (simp add: power2_eq_square)
  finally show "rnd (rnd (z * z) / r) \<le> z * z / r * (1 + u) ^ 2" by (simp add: U_def)
qed

lemma rounded_df_bounds:
  fixes rnd :: "real \<Rightarrow> real" and a b p q u :: real
  defines "c \<equiv> rnd (a + b)"
  defines "num \<equiv> rnd (c * c)"
  defines "x \<equiv> rnd (rnd (a * a) / p)"
  defines "y \<equiv> rnd (rnd (b * b) / q)"
  defines "den \<equiv> rnd (x + y)"
  assumes u0: "0 \<le> u" and u1: "u < 1"
    and a: "0 \<le> a" and b: "0 \<le> b" and ab: "0 < a + b" and p: "1 \<le> p" and q: "1 \<le> q"
    and e_c: "rel_err u rnd (a + b)" and e_num: "rel_err u rnd (c * c)"
    and e_a: "rel_err u rnd (a * a)" and e_x: "rel_err u rnd (rnd (a * a) / p)"
    and e_b: "rel_err u rnd (b * b)" and e_y: "rel_err u rnd (rnd (b * b) / q)"
    and e_den: "rel_err u rnd (x + y)" and e_df: "rel_err u rnd (num / den)"
  shows "0 < den"
    and "min p q * ((1 - u) ^ 4 / (1 + u) ^ 3) \<le> rnd (num / den)"
    and "rnd (num / den) \<le> (p + q) * ((1 + u) ^ 4 / (1 - u) ^ 3)"
proof -
  define L where "L = 1 - u"
  define U where "U = 1 + u"
  have L: "0 < L" "L \<le> 1" and U: "1 \<le> U" "0 < U" using u0 u1 by (simp_all add: L_def U_def)
  have lo: "\<And>z. rel_err u rnd z \<Longrightarrow> 0 \<le> z \<Longrightarrow> z * L \<le> rnd z"
    and hi: "\<And>z. rel_err u rnd z \<Longrightarrow> 0 \<le> z \<Longrightarrow> rnd z \<le> z * U"
    using rel_err_lower rel_err_upper by (simp_all add: L_def U_def)
  define G where "G = (a + b) * (a + b) / (a * a / p + b * b / q)"
  define D where "D = a * a / p + b * b / q"
  have D: "0 < D"
  proof (cases "0 < a")
    case True
    then have "0 < a * a / p" using p by simp
    moreover have "0 \<le> b * b / q" using q by simp
    ultimately show ?thesis unfolding D_def by linarith
  next
    case False
    then have "0 < b" using a ab by linarith
    then have "0 < b * b / q" using q by simp
    moreover have "0 \<le> a * a / p" using p by simp
    ultimately show ?thesis unfolding D_def by linarith
  qed
  have Glo: "min p q \<le> G" and Ghi: "G \<le> p + q"
    unfolding G_def using welch_df_lower[OF a b ab p q] welch_df_upper[OF a b ab p q] by simp_all
  have ab0: "0 \<le> a + b" using ab by simp
  have c_lo: "(a + b) * L \<le> c" unfolding c_def by (rule lo[OF e_c ab0])
  have c_hi: "c \<le> (a + b) * U" unfolding c_def by (rule hi[OF e_c ab0])
  have c0: "0 \<le> c" unfolding c_def by (rule rel_err_nonneg[OF e_c u1 ab0])
  have abL0: "0 \<le> (a + b) * L" using ab L by simp
  have cc_lo: "((a + b) * L) * ((a + b) * L) \<le> c * c"
    by (rule mult_mono[OF c_lo c_lo c0 abL0])
  have cc_hi: "c * c \<le> ((a + b) * U) * ((a + b) * U)"
    by (rule mult_mono[OF c_hi c_hi]) (use c0 ab U in simp_all)
  have cc0: "0 \<le> c * c" by simp
  have num_lo: "(a + b) * (a + b) * L ^ 3 \<le> num"
  proof -
    have "(a + b) * (a + b) * L ^ 3 = (((a + b) * L) * ((a + b) * L)) * L"
      by (simp add: power3_eq_cube algebra_simps)
    also have "\<dots> \<le> (c * c) * L" using cc_lo L by (simp add: mult_right_mono)
    also have "\<dots> \<le> num" unfolding num_def by (rule lo[OF e_num cc0])
    finally show ?thesis .
  qed
  have num_hi: "num \<le> (a + b) * (a + b) * U ^ 3"
  proof -
    have "num \<le> (c * c) * U" unfolding num_def by (rule hi[OF e_num cc0])
    also have "\<dots> \<le> (((a + b) * U) * ((a + b) * U)) * U"
      using cc_hi U by (simp add: mult_right_mono)
    also have "\<dots> = (a + b) * (a + b) * U ^ 3" by (simp add: power3_eq_cube algebra_simps)
    finally show ?thesis .
  qed
  have num0: "0 \<le> num" unfolding num_def by (rule rel_err_nonneg[OF e_num u1 cc0])
  have x: "a * a / p * L ^ 2 \<le> x" "x \<le> a * a / p * U ^ 2"
    using rel_err_square_term[OF u0 u1 p e_a e_x] by (simp_all add: x_def L_def U_def)
  have y: "b * b / q * L ^ 2 \<le> y" "y \<le> b * b / q * U ^ 2"
    using rel_err_square_term[OF u0 u1 q e_b e_y] by (simp_all add: y_def L_def U_def)
  have xy_lo: "D * L ^ 2 \<le> x + y" and xy_hi: "x + y \<le> D * U ^ 2"
    using x y by (simp_all add: D_def algebra_simps)
  have DL: "0 < D * L ^ 2" using D L by simp
  have xy0: "0 \<le> x + y" using DL xy_lo by linarith
  have den_lo: "D * L ^ 3 \<le> den"
  proof -
    have "D * L ^ 3 = (D * L ^ 2) * L" by (simp add: power3_eq_cube power2_eq_square)
    also have "\<dots> \<le> (x + y) * L" using xy_lo L by (simp add: mult_right_mono)
    also have "\<dots> \<le> den" unfolding den_def by (rule lo[OF e_den xy0])
    finally show ?thesis .
  qed
  have den_hi: "den \<le> D * U ^ 3"
  proof -
    have "den \<le> (x + y) * U" unfolding den_def by (rule hi[OF e_den xy0])
    also have "\<dots> \<le> (D * U ^ 2) * U" using xy_hi U by (simp add: mult_right_mono)
    also have "\<dots> = D * U ^ 3" by (simp add: power3_eq_cube power2_eq_square)
    finally show ?thesis .
  qed
  have DL3: "0 < D * L ^ 3" using D L by simp
  show den0: "0 < den" using DL3 den_lo by linarith
  have quo0: "0 \<le> num / den" using num0 den0 by simp
  have quo_hi: "num / den \<le> G * (U ^ 3 / L ^ 3)"
  proof -
    have "num / den \<le> ((a + b) * (a + b) * U ^ 3) / (D * L ^ 3)"
      by (rule frac_le) (use num_hi den_lo DL3 ab U in simp_all)
    also have "\<dots> = G * (U ^ 3 / L ^ 3)" by (simp add: G_def D_def)
    finally show ?thesis .
  qed
  have quo_lo: "G * (L ^ 3 / U ^ 3) \<le> num / den"
  proof -
    have "G * (L ^ 3 / U ^ 3) = ((a + b) * (a + b) * L ^ 3) / (D * U ^ 3)"
      by (simp add: G_def D_def)
    also have "\<dots> \<le> num / den"
      by (rule frac_le) (use num_lo den_hi den0 num0 in simp_all)
    finally show ?thesis .
  qed
  have "rnd (num / den) \<le> (num / den) * U" by (rule hi[OF e_df quo0])
  also have "\<dots> \<le> (G * (U ^ 3 / L ^ 3)) * U"
    by (rule mult_right_mono[OF quo_hi]) (use U in simp)
  also have "\<dots> = G * (U ^ 4 / L ^ 3)" by (simp add: power4_eq_xxxx power3_eq_cube)
  also have "\<dots> \<le> (p + q) * (U ^ 4 / L ^ 3)"
    by (rule mult_right_mono[OF Ghi]) (use L U in simp)
  finally show "rnd (num / den) \<le> (p + q) * ((1 + u) ^ 4 / (1 - u) ^ 3)"
    by (simp add: L_def U_def)
  have "min p q * (L ^ 4 / U ^ 3) \<le> G * (L ^ 4 / U ^ 3)"
    by (rule mult_right_mono[OF Glo]) (use L U in simp)
  also have "\<dots> = (G * (L ^ 3 / U ^ 3)) * L" by (simp add: power4_eq_xxxx power3_eq_cube)
  also have "\<dots> \<le> (num / den) * L"
    by (rule mult_right_mono[OF quo_lo]) (use L in simp)
  also have "\<dots> \<le> rnd (num / den)" by (rule lo[OF e_df quo0])
  finally show "min p q * ((1 - u) ^ 4 / (1 + u) ^ 3) \<le> rnd (num / den)"
    by (simp add: L_def U_def)
qed

section \<open>What a call that returns has computed\<close>

lemma extract_groups_Inr:
  assumes "extract_groups df ic dc ctv = Inr (cv, tv, c, t)"
  shows "ctv = [c, t] \<and> cv = group df ic dc c \<and> tv = group df ic dc t
         \<and> 2 \<le> length cv \<and> 2 \<le> length tv"
proof -
  from assms obtain a b where ab: "ctv = [a, b]"
    by (cases "(df, ic, dc, ctv)" rule: extract_groups.cases) auto
  with assms show ?thesis
    by (auto simp: Let_def group_def split: if_splits)
qed

lemma reraise_Inr: "reraise x = Inr r \<longleftrightarrow> x = Inr r"
  by (auto simp: reraise_def split: sum.splits)

lemma reraise_class:
  "reraise x = Inl e \<Longrightarrow> subclass_of (cls e) WelchTTestError"
  by (cases x) (auto simp: reraise_def split: if_splits elim: subclass_of.elims)

lemma welch_success:
  assumes "welch_t_test_with prim df ic dc ctv = Inr r"
  shows "\<exists>c t tp. ctv = [c, t] \<and> validate_inputs df ic dc ctv = Inr ()
           \<and> 2 \<le> length (group df ic dc c) \<and> 2 \<le> length (group df ic dc t)
           \<and> prim (group df ic dc c) (group df ic dc t) = Inr tp
           \<and> r = compute_results tp (group df ic dc c) (group df ic dc t) c t"
proof -
  from assms have b: "welch_body prim df ic dc ctv = Inr r"
    by (simp add: welch_t_test_with_def reraise_Inr)
  then obtain cv tv c t where v: "validate_inputs df ic dc ctv = Inr ()"
    and e: "extract_groups df ic dc ctv = Inr (cv, tv, c, t)"
    and p: "(case prim cv tv of Inl e \<Rightarrow> Inl e | Inr tp \<Rightarrow> Inr (compute_results tp cv tv c t)) = Inr r"
    by (auto simp: welch_body_def split: sum.splits)
  from p obtain tp where tp: "prim cv tv = Inr tp" "r = compute_results tp cv tv c t"
    by (auto split: sum.splits)
  note g = extract_groups_Inr[OF e]
  show ?thesis
  proof (intro exI conjI)
    show "ctv = [c, t]" using g by auto
    show "validate_inputs df ic dc ctv = Inr ()" by (rule v)
    show "2 \<le> length (group df ic dc c)" using g by auto
    show "2 \<le> length (group df ic dc t)" using g by auto
    show "prim (group df ic dc c) (group df ic dc t) = Inr tp" using g tp by auto
    show "r = compute_results tp (group df ic dc c) (group df ic dc t) c t" using g tp by auto
  qed
qed

lemma compute_results_df:
  "degrees_of_freedom (compute_results tp cv tv c t)
     = welch_satterthwaite (np_var cv) (length cv) (np_var tv) (length tv)"
  by (simp add: compute_results_def Let_def welch_satterthwaite_def fpow2_np_std)

lemma ttest_ind_statistic:
  "fst (ttest_ind a b) = welch_statistic (np_mean a) (np_mean b) (np_std a) (length a)
     (np_std b) (length b)"
  by (simp add: ttest_ind_def unequal_var_ttest_denom_def Let_def welch_statistic_def
        fpow2_np_std)

lemma t_statistic_formula:
  assumes "welch_t_test df ic dc ctv = Inr r"
  shows "t_statistic r = welch_statistic (mean_control r) (mean_test r)
           (std_control r) (n_control r) (std_test r) (n_test r)"
proof -
  from welch_success[OF assms[unfolded welch_t_test_def]] obtain c t tp where
    r: "r = compute_results tp (group df ic dc c) (group df ic dc t) c t"
    and tp: "Inr (ttest_ind (group df ic dc c) (group df ic dc t)) = (Inr tp :: exn + _)"
    by blast
  from tp have tp': "tp = ttest_ind (group df ic dc c) (group df ic dc t)" by simp
  show ?thesis
    by (simp add: r compute_results_def Let_def tp' ttest_ind_statistic)
qed

lemma errors_in_taxonomy:
  "welch_t_test_with prim df ic dc ctv = Inl e \<Longrightarrow> subclass_of (cls e) WelchTTestError"
  unfolding welch_t_test_with_def by (rule reraise_class)

lemma never_statistical_error:
  "welch_t_test_with prim df ic dc ctv \<noteq> Inl (Exn StatisticalError m)"
proof
  assume a: "welch_t_test_with prim df ic dc ctv = Inl (Exn StatisticalError m)"
  then show False
    by (auto simp: welch_t_test_with_def reraise_def split: sum.splits if_splits)
qed

lemma group_nonempty_select: "group df ic dc v \<noteq> [] \<Longrightarrow> select df ic v dc \<noteq> []"
  by (auto simp: group_def dropna_def)

lemma nunique_rows: "0 < nunique df col \<Longrightarrow> rows df \<noteq> []"
  by (auto simp: nunique_def List.map_filter_def)

lemma script_distinct_count:
  assumes ic: "ic \<in> set (columns df)" and dc: "dc \<in> set (columns df)"
    and n: "2 < nunique df ic"
  shows "welch_t_test_script_with prim df ic dc ctv =
           Inr (ErrorDict
             (''Independent variable column has '' @ str_nat (nunique df ic)
              @ '' distinct values. Only 2 are allowed for t-test.''))"
  using assms by (simp add: welch_t_test_script_with_def script_body_def)

text \<open>
  A group with one observation makes the extraction fail, and so the entry point, with
  InvalidDataError, whatever the other group is.
\<close>

lemma single_observation_invalid_data:
  assumes v: "validate_inputs df ic dc [c, t] = Inr ()"
    and one: "length (group df ic dc c) = 1 \<or> length (group df ic dc t) = 1"
  shows "\<exists>m. welch_t_test_with prim df ic dc [c, t] = Inl (Exn InvalidDataError m)"
proof -
  have "\<exists>m. extract_groups df ic dc [c, t] = Inl (Exn InvalidDataError m)"
    using one by (auto simp: Let_def group_def)
  then obtain m where x: "extract_groups df ic dc [c, t] = Inl (Exn InvalidDataError m)" ..
  have "welch_t_test_with prim df ic dc [c, t] = Inl (Exn InvalidDataError m)"
    by (simp add: welch_t_test_with_def welch_body_def v x reraise_def del: extract_groups.simps)
  then show ?thesis ..
qed

text \<open>The same for the permissive variant, when it returns a result.\<close>

lemma script_success:
  assumes "welch_t_test_script_with prim df ic dc ctv = Inr (Results r)"
  shows "\<exists>c t tp. ctv = [c, t] \<and> group df ic dc c \<noteq> [] \<and> group df ic dc t \<noteq> []
           \<and> prim (group df ic dc c) (group df ic dc t) = Inr tp
           \<and> r = compute_results tp (group df ic dc c) (group df ic dc t) c t"
proof -
  from assms have b: "script_body prim df ic dc ctv = Inr (Results r)"
    by (auto simp: welch_t_test_script_with_def split: sum.splits)
  then have len: "length ctv = 2"
    by (auto simp: script_body_def split: if_splits)
  then obtain c t where ctv: "ctv = [c, t]"
    by (cases ctv; cases "tl ctv") auto
  from b obtain tp where
    "group df ic dc c \<noteq> []" "group df ic dc t \<noteq> []"
    "prim (group df ic dc c) (group df ic dc t) = Inr tp"
    "r = compute_results tp (group df ic dc c) (group df ic dc t) c t"
    unfolding ctv
    by (auto simp: script_body_def Let_def group_def split: if_splits sum.splits)
  with ctv show ?thesis by blast
qed

lemma script_mean_difference:
  assumes "welch_t_test_script_with prim df ic dc ctv = Inr (Results r)"
  shows "mean_difference r = fsub (mean_test r) (mean_control r)"
proof -
  from script_success[OF assms] obtain c t tp where
    r: "r = compute_results tp (group df ic dc c) (group df ic dc t) c t" by blast
  show ?thesis by (simp add: r compute_results_def Let_def)
qed

lemma script_degrees_of_freedom:
  assumes "welch_t_test_script_with prim df ic dc ctv = Inr (Results r)"
  shows "degrees_of_freedom r =
           welch_satterthwaite (np_var (group df ic dc (control_value r))) (n_control r)
             (np_var (group df ic dc (test_value r))) (n_test r)"
proof -
  from script_success[OF assms] obtain c t tp where
    r: "r = compute_results tp (group df ic dc c) (group df ic dc t) c t" by blast
  have cv: "control_value r = c" "test_value r = t"
       "n_control r = length (group df ic dc c)" "n_test r = length (group df ic dc t)"
    by (simp_all add: r compute_results_def Let_def)
  show ?thesis unfolding cv using r compute_results_df by simp
qed

lemma script_t_statistic:
  assumes "welch_t_test_script df ic dc ctv = Inr (Results r)"
  shows "t_statistic r = welch_statistic (mean_control r) (mean_test r)
           (std_control r) (n_control r) (std_test r) (n_test r)"
proof -
  from script_success[OF assms[unfolded welch_t_test_script_def]] obtain c t tp where
    r: "r = compute_results tp (group df ic dc c) (group df ic dc t) c t"
    and tp: "Inr (ttest_ind (group df ic dc c) (group df ic dc t)) = (Inr tp :: exn + _)"
    by blast
  from tp have tp': "tp = ttest_ind (group df ic dc c) (group df ic dc t)" by simp
  show ?thesis
    by (simp add: r compute_results_def Let_def tp' ttest_ind_statistic)
qed

section \<open>The entry point with rounding\<close>

text \<open>
  Without rounding, and with the exact mean and standard deviation, it is the entry point
  \<open>welch_t_test_with\<close>.
\<close>

lemma fround_id: "fround (\<lambda>x. x) v = v"
  by (cases v) simp_all

lemma compute_results_fp_exact:
  "compute_results_fp (\<lambda>x. x) np_mean np_std tp cv tv c t = compute_results tp cv tv c t"
  by (simp add: compute_results_fp_def compute_results_def welch_df_fp_def fround_id Let_def)

lemma welch_t_test_fp_exact:
  "welch_t_test_fp (\<lambda>x. x) np_mean np_std prim df ic dc ctv = welch_t_test_with prim df ic dc ctv"
  unfolding welch_t_test_fp_def welch_t_test_with_def welch_body_def compute_results_fp_exact
  by (rule refl)

lemma welch_success_fp:
  assumes "welch_t_test_fp rnd mean std prim df ic dc ctv = Inr r"
  shows "\<exists>c t tp. ctv = [c, t]
           \<and> 2 \<le> length (group df ic dc c) \<and> 2 \<le> length (group df ic dc t)
           \<and> r = compute_results_fp rnd mean std tp (group df ic dc c) (group df ic dc t) c t"
proof -
  from assms obtain cv tv c t where
    e: "extract_groups df ic dc ctv = Inr (cv, tv, c, t)"
    and p: "(case prim cv tv of Inl e \<Rightarrow> Inl e
             | Inr tp \<Rightarrow> Inr (compute_results_fp rnd mean std tp cv tv c t)) = Inr r"
    by (auto simp: welch_t_test_fp_def reraise_Inr split: sum.splits)
  from p obtain tp where tp: "r = compute_results_fp rnd mean std tp cv tv c t"
    by (auto split: sum.splits)
  note g = extract_groups_Inr[OF e]
  show ?thesis
  proof (intro exI conjI)
    show "ctv = [c, t]" using g by auto
    show "2 \<le> length (group df ic dc c)" using g by auto
    show "2 \<le> length (group df ic dc t)" using g by auto
    show "r = compute_results_fp rnd mean std tp (group df ic dc c) (group df ic dc t) c t"
      using g tp by auto
  qed
qed

lemma welch_df_fp_bounds:
  fixes rnd :: "real \<Rightarrow> real"
  assumes acc: "list_all (rel_err u rnd) (df_operands rnd s1 n1 s2 n2)"
    and u0: "0 \<le> u" and u1: "u < 1"
    and nz: "s1 \<noteq> 0 \<or> s2 \<noteq> 0" and n1: "2 \<le> n1" and n2: "2 \<le> n2"
  shows "fle (Fin ((real (min n1 n2) - 1) * ((1 - u) ^ 4 / (1 + u) ^ 3)))
           (welch_df_fp rnd (Fin s1) n1 (Fin s2) n2)
       \<and> fle (welch_df_fp rnd (Fin s1) n1 (Fin s2) n2)
           (Fin ((real (n1 + n2) - 2) * ((1 + u) ^ 4 / (1 - u) ^ 3)))"
proof -
  define a where "a = rnd (rnd (s1 * s1) / real n1)"
  define b where "b = rnd (rnd (s2 * s2) / real n2)"
  define p where "p = real n1 - 1"
  define q where "q = real n2 - 1"
  have p: "1 \<le> p" and q: "1 \<le> q" using n1 n2 by (simp_all add: p_def q_def)
  have m1: "0 < real n1" and m2: "0 < real n2" using n1 n2 by simp_all
  from acc have e:
    "rel_err u rnd (s1 * s1)" "rel_err u rnd (s2 * s2)"
    "rel_err u rnd (rnd (s1 * s1) / real n1)" "rel_err u rnd (rnd (s2 * s2) / real n2)"
    "rel_err u rnd (a + b)" "rel_err u rnd (rnd (a + b) * rnd (a + b))"
    "rel_err u rnd (a * a)" "rel_err u rnd (rnd (a * a) / p)"
    "rel_err u rnd (b * b)" "rel_err u rnd (rnd (b * b) / q)"
    "rel_err u rnd (rnd (rnd (a * a) / p) + rnd (rnd (b * b) / q))"
    "rel_err u rnd (rnd (rnd (a + b) * rnd (a + b))
                    / rnd (rnd (rnd (a * a) / p) + rnd (rnd (b * b) / q)))"
    by (simp_all add: df_operands_def Let_def a_def b_def p_def q_def)
  have sq: "0 \<le> rnd (s * s) / n \<and> (s \<noteq> 0 \<longrightarrow> 0 < rnd (s * s) / n)"
    if "rel_err u rnd (s * s)" and "0 < n" for s n :: real
  proof -
    have "0 \<le> rnd (s * s)" by (rule rel_err_nonneg[OF that(1) u1]) simp
    moreover have "0 < rnd (s * s)" if "s \<noteq> 0"
    proof -
      have "0 < s * s" using that not_real_square_gt_zero[of s] by blast
      then show ?thesis by (rule rel_err_pos[OF \<open>rel_err u rnd (s * s)\<close> u1])
    qed
    ultimately show ?thesis using that(2) by simp
  qed
  have a: "0 \<le> a" unfolding a_def using sq[OF e(1) m1] by (intro rel_err_nonneg[OF e(3) u1]) simp
  have b: "0 \<le> b" unfolding b_def using sq[OF e(2) m2] by (intro rel_err_nonneg[OF e(4) u1]) simp
  have ab: "0 < a + b"
  proof -
    have "0 < a" if "s1 \<noteq> 0"
      unfolding a_def using sq[OF e(1) m1] that by (intro rel_err_pos[OF e(3) u1]) simp
    moreover have "0 < b" if "s2 \<noteq> 0"
      unfolding b_def using sq[OF e(2) m2] that by (intro rel_err_pos[OF e(4) u1]) simp
    ultimately have "0 < a \<or> 0 < b" using nz by blast
    then show ?thesis using a b by linarith
  qed
  note B = rounded_df_bounds[OF u0 u1 a b ab p q e(5) e(6) e(7) e(8) e(9) e(10) e(11) e(12)]
  have n0: "real n1 \<noteq> 0" "real n2 \<noteq> 0" "p \<noteq> 0" "q \<noteq> 0" using m1 m2 p q by auto
  have den0: "rnd (rnd (rnd (a * a) / p) + rnd (rnd (b * b) / q)) \<noteq> 0" using B(1) by simp
  have eq: "welch_df_fp rnd (Fin s1) n1 (Fin s2) n2
              = Fin (rnd (rnd (rnd (a + b) * rnd (a + b))
                          / rnd (rnd (rnd (a * a) / p) + rnd (rnd (b * b) / q))))"
    using n0 den0
    by (simp add: welch_df_fp_def Let_def fpow2_def a_def[symmetric] b_def[symmetric]
          p_def[symmetric] q_def[symmetric])
  have mn: "real (min n1 n2) - 1 = min p q" by (simp add: p_def q_def min_def)
  have pl: "real (n1 + n2) - 2 = p + q" by (simp add: p_def q_def)
  show ?thesis unfolding eq mn pl using B(2) B(3) by simp
qed

text \<open>
  Two standard deviations that are zero give NaN under every rounding; and a rounding that
  errs upwards by one eighth on each operation gives 9/2 for two groups of three
  observations of standard deviation 1, above \<open>n_control + n_test - 2 = 4\<close>.
\<close>

lemma welch_df_fp_zero:
  assumes "rnd 0 = 0" and "2 \<le> n1" and "2 \<le> n2"
  shows "welch_df_fp rnd (Fin 0) n1 (Fin 0) n2 = NaN"
  using assms by (simp add: welch_df_fp_def Let_def fpow2_def)

lemma rounding_exceeds_exact_bound:
  "list_all (rel_err (1 / 8) (\<lambda>x. x * (9 / 8))) (df_operands (\<lambda>x. x * (9 / 8)) 1 3 1 3)
   \<and> welch_df_fp (\<lambda>x. x * (9 / 8)) (Fin 1) 3 (Fin 1) 3 = Fin (9 / 2)
   \<and> \<not> fle (welch_df_fp (\<lambda>x. x * (9 / 8)) (Fin 1) 3 (Fin 1) 3) (Fin (real (3 + 3) - 2))"
proof -
  have 1: "rel_err (1 / 8) (\<lambda>x. x * (9 / 8)) z" for z :: real
  proof -
    have "z * (9 / 8) - z = z / 8" by simp
    then show ?thesis by (simp add: rel_err_def)
  qed
  have 2: "welch_df_fp (\<lambda>x. x * (9 / 8)) (Fin 1) 3 (Fin 1) 3 = Fin (9 / 2)"
    by (simp add: welch_df_fp_def Let_def fpow2_def)
  show ?thesis using 1 2 by (simp add: list_all_iff)
qed

section \<open>The entry points on the example tables\<close>

lemmas table_defs = mk_df_def mk_row_def empty_df_def nunique_def List.map_filter_def
  select_def dropna_def group_def

lemma sqrt_25: "sqrt 25 = 5"
  by (rule real_sqrt_unique) simp_all

lemma ex_validate: "validate_inputs ex_df ''group'' ''value'' [''control'', ''test''] = Inr ()"
  by (simp add: validate_inputs_def ex_df_def table_defs)

lemma ex_group_control: "group ex_df ''group'' ''value'' ''control'' = [Fin 0, Fin 6]"
  by (simp add: ex_df_def table_defs)

lemma ex_group_test: "group ex_df ''group'' ''value'' ''test'' = [Fin 10, Fin 18]"
  by (simp add: ex_df_def table_defs)

lemma ex_extract: "extract_groups ex_df ''group'' ''value'' [''control'', ''test'']
   = Inr ([Fin 0, Fin 6], [Fin 10, Fin 18], ''control'', ''test'')"
  by (simp add: ex_df_def table_defs Let_def)

lemma ex_mean: "np_mean [Fin 0, Fin 6] = Fin 3" "np_mean [Fin 10, Fin 18] = Fin 14"
  by (simp_all add: np_mean_def)

lemma ex_var: "np_var [Fin 0, Fin 6] = Fin 18" "np_var [Fin 10, Fin 18] = Fin 32"
  by (simp_all add: np_var_def ex_mean fsub_def fpow2_def)

lemma ex_ttest: "ttest_ind [Fin 0, Fin 6] [Fin 10, Fin 18]
   = (Fin (- (11 / 5)), TwoSidedT (Fin (- (11 / 5))) (Fin (625 / 337)))"
  by (simp add: ttest_ind_def unequal_var_ttest_denom_def ex_mean ex_var fsub_def fpow2_def
        Let_def sqrt_25)

lemma ex_compute: "compute_results (Fin (- (11 / 5)), TwoSidedT (Fin (- (11 / 5))) (Fin (625 / 337)))
   [Fin 0, Fin 6] [Fin 10, Fin 18] ''control'' ''test'' = ex_result"
  unfolding compute_results_def Let_def ex_result_def fpow2_np_std ex_mean ex_var np_std_def
  by (simp add: fsub_def fpow2_def)

lemma ex_eval: "welch_t_test ex_df ''group'' ''value'' [''control'', ''test''] = Inr ex_result"
  by (simp add: welch_t_test_def welch_t_test_with_def welch_body_def reraise_def ex_validate
        ex_extract ex_ttest ex_compute del: extract_groups.simps)

lemma const_validate: "validate_inputs const_df ''group'' ''value'' [''control'', ''test''] = Inr ()"
  by (simp add: validate_inputs_def const_df_def table_defs)

lemma const_extract: "extract_groups const_df ''group'' ''value'' [''control'', ''test'']
   = Inr ([Fin 5, Fin 5, Fin 5], [Fin 5, Fin 5, Fin 5], ''control'', ''test'')"
  by (simp add: const_df_def table_defs Let_def)

lemma const_mean: "np_mean [Fin 5, Fin 5, Fin 5] = Fin 5"
  by (simp add: np_mean_def)

lemma const_var: "np_var [Fin 5, Fin 5, Fin 5] = Fin 0"
  by (simp add: np_var_def const_mean fsub_def fpow2_def)

lemma const_ttest: "ttest_ind [Fin 5, Fin 5, Fin 5] [Fin 5, Fin 5, Fin 5]
   = (NaN, TwoSidedT NaN (Fin 1))"
  by (simp add: ttest_ind_def unequal_var_ttest_denom_def const_mean const_var fsub_def
        fpow2_def Let_def)

lemma const_compute: "compute_results (NaN, TwoSidedT NaN (Fin 1))
   [Fin 5, Fin 5, Fin 5] [Fin 5, Fin 5, Fin 5] ''control'' ''test'' = const_result"
  unfolding compute_results_def Let_def const_result_def fpow2_np_std const_mean const_var
    np_std_def
  by (simp add: fsub_def fpow2_def)

lemma const_eval:
  "welch_t_test const_df ''group'' ''value'' [''control'', ''test''] = Inr const_result"
  by (simp add: welch_t_test_def welch_t_test_with_def welch_body_def reraise_def const_validate
        const_extract const_ttest const_compute del: extract_groups.simps)

lemma zero_validate: "validate_inputs zero_df ''group'' ''value'' [''control'', ''test''] = Inr ()"
  by (simp add: validate_inputs_def zero_df_def table_defs)

lemma zero_extract: "extract_groups zero_df ''group'' ''value'' [''control'', ''test'']
   = Inr ([Fin 5, Fin 5], [Fin 7, Fin 7], ''control'', ''test'')"
  by (simp add: zero_df_def table_defs Let_def)

lemma zero_mean: "np_mean [Fin 5, Fin 5] = Fin 5" "np_mean [Fin 7, Fin 7] = Fin 7"
  by (simp_all add: np_mean_def)

lemma zero_var: "np_var [Fin 5, Fin 5] = Fin 0" "np_var [Fin 7, Fin 7] = Fin 0"
  by (simp_all add: np_var_def zero_mean fsub_def fpow2_def)

lemma zero_ttest: "ttest_ind [Fin 5, Fin 5] [Fin 7, Fin 7] = (NInf, TwoSidedT NInf (Fin 1))"
  by (simp add: ttest_ind_def unequal_var_ttest_denom_def zero_mean zero_var fsub_def
        fpow2_def Let_def)

lemma zero_compute: "compute_results (NInf, TwoSidedT NInf (Fin 1))
   [Fin 5, Fin 5] [Fin 7, Fin 7] ''control'' ''test'' = zero_result"
  unfolding compute_results_def Let_def zero_result_def fpow2_np_std zero_mean zero_var
    np_std_def
  by (simp add: fsub_def fpow2_def)

lemma zero_eval:
  "welch_t_test zero_df ''group'' ''value'' [''control'', ''test''] = Inr zero_result"
  by (simp add: welch_t_test_def welch_t_test_with_def welch_body_def reraise_def zero_validate
        zero_extract zero_ttest zero_compute del: extract_groups.simps)

lemma short_validate: "validate_inputs short_df ''group'' ''value'' [''control'', ''test''] = Inr ()"
  by (simp add: validate_inputs_def short_df_def table_defs)

lemma short_groups: "group short_df ''group'' ''value'' ''control'' = [Fin 1]"
  "group short_df ''group'' ''value'' ''test'' = [Fin 2, Fin 3]"
  by (simp_all add: short_df_def table_defs)

lemma short_var: "np_var [Fin 1] = NaN"
  by (simp add: np_var_def np_mean_def fsub_def fpow2_def)

lemma script_single_observation:
  "\<exists>r. welch_t_test_script short_df ''group'' ''value'' [''control'', ''test'']
         = Inr (Results r) \<and> n_control r = 1 \<and> std_control r = NaN
           \<and> degrees_of_freedom r = NaN"
  by (simp add: welch_t_test_script_def welch_t_test_script_with_def script_body_def
        short_df_def mk_df_def mk_row_def nunique_def List.map_filter_def select_def dropna_def
        Let_def compute_results_def np_std_def short_var fpow2_def)

lemma lone_validate: "validate_inputs lone_df ''group'' ''value'' [''control'', ''test''] = Inr ()"
  by (simp add: validate_inputs_def lone_df_def table_defs)

lemma lone_groups: "group lone_df ''group'' ''value'' ''control'' = [Fin 1]"
  by (simp add: lone_df_def table_defs)

lemma lone_extract: "extract_groups lone_df ''group'' ''value'' [''control'', ''test'']
   = Inl (Exn InvalidDataError ''No valid (non-NaN) data in test group'')"
  by (simp add: lone_df_def table_defs Let_def)

lemma three_nunique: "nunique three_df ''group'' = 3"
  by (simp add: three_df_def table_defs)

section \<open>The claims of the specification\<close>

subsection \<open>C1: the sign convention of the t-statistic\<close>

text \<open>
  Claim C1 says that the t-statistic is \<open>(mean_test - mean_control) / sqrt (s1^2/n1 + s2^2/n2)\<close>
  and has the sign of \<open>mean_difference\<close>. The entry point passes the control group first
  to the primitive, which subtracts the mean of its second argument from the mean of its
  first. On the table with control 0, 6 and test 10, 18 the call returns, the t-statistic
  is -11/5 and not the value of the claimed formula, its sign is -1, and the sign of
  \<open>mean_difference\<close> is 1.
\<close>

theorem t_statistic_test_minus_control_counterexample:
  "welch_t_test ex_df ''group'' ''value'' [''control'', ''test''] = Inr ex_result
   \<and> t_statistic ex_result \<noteq> welch_statistic (mean_test ex_result) (mean_control ex_result)
        (std_control ex_result) (n_control ex_result) (std_test ex_result) (n_test ex_result)
   \<and> fsgn (t_statistic ex_result) = - 1 \<and> fsgn (mean_difference ex_result) = 1"
  by (simp add: ex_eval) (simp add: ex_result_def welch_statistic_def fsub_def fpow2_def sqrt_25)

text \<open>
  Claim C1 as amended: for every call that returns, the t-statistic is
  \<open>(mean_control - mean_test) / sqrt (s1^2/n1 + s2^2/n2)\<close>, with the returned means,
  standard deviations and counts, which is the negation of the formula of the claim; when
  the observations of the two groups are finite, the sign of the t-statistic is the
  opposite of the sign of \<open>mean_difference\<close> (both are 0 when the means are equal).
\<close>

theorem t_statistic_control_minus_test:
  assumes ok: "welch_t_test df ic dc ctv = Inr r"
  shows "t_statistic r = welch_statistic (mean_control r) (mean_test r)
           (std_control r) (n_control r) (std_test r) (n_test r)
       \<and> t_statistic r = fneg (welch_statistic (mean_test r) (mean_control r)
           (std_control r) (n_control r) (std_test r) (n_test r))
       \<and> (list_all is_fin (group df ic dc (control_value r))
            \<and> list_all is_fin (group df ic dc (test_value r))
          \<longrightarrow> fsgn (t_statistic r) = - fsgn (mean_difference r))"
proof (intro conjI impI)
  note tf = t_statistic_formula[OF ok]
  show "t_statistic r = welch_statistic (mean_control r) (mean_test r)
           (std_control r) (n_control r) (std_test r) (n_test r)"
    by (rule tf)
  show "t_statistic r = fneg (welch_statistic (mean_test r) (mean_control r)
           (std_control r) (n_control r) (std_test r) (n_test r))"
    unfolding tf by (rule welch_statistic_swap)
  assume fin: "list_all is_fin (group df ic dc (control_value r))
            \<and> list_all is_fin (group df ic dc (test_value r))"
  then have fc: "list_all is_fin (group df ic dc (control_value r))"
    and ft: "list_all is_fin (group df ic dc (test_value r))" by simp_all
  from welch_success[OF ok[unfolded welch_t_test_def]] obtain c t tp where
    r: "r = compute_results tp (group df ic dc c) (group df ic dc t) c t"
    and lc: "2 \<le> length (group df ic dc c)" and lt: "2 \<le> length (group df ic dc t)"
    by blast
  let ?cv = "group df ic dc c" and ?tv = "group df ic dc t"
  have f: "control_value r = c" "test_value r = t"
       "n_control r = length ?cv" "n_test r = length ?tv"
       "std_control r = np_std ?cv" "std_test r = np_std ?tv"
       "mean_control r = np_mean ?cv" "mean_test r = np_mean ?tv"
       "mean_difference r = fsub (np_mean ?tv) (np_mean ?cv)"
    by (simp_all add: r compute_results_def Let_def)
  have nec: "?cv \<noteq> []" and net: "?tv \<noteq> []" using lc lt by auto
  from is_fin_np_mean[OF fc[unfolded f] nec] obtain mc where mc: "np_mean ?cv = Fin mc"
    using is_fin_obtain by blast
  from is_fin_np_mean[OF ft[unfolded f] net] obtain mt where mt: "np_mean ?tv = Fin mt"
    using is_fin_obtain by blast
  from np_var_finite[OF fc[unfolded f] lc] obtain v1 where
    v1: "np_var ?cv = Fin v1" "0 \<le> v1" by blast
  from np_var_finite[OF ft[unfolded f] lt] obtain v2 where
    v2: "np_var ?tv = Fin v2" "0 \<le> v2" by blast
  have n0: "real (length ?cv) \<noteq> 0" "real (length ?tv) \<noteq> 0" using nec net by auto
  define d where "d = sqrt (v1 / real (length ?cv) + v2 / real (length ?tv))"
  have d0: "0 \<le> d" using v1 v2 by (simp add: d_def)
  have s: "v1 / real (length ?cv) + v2 / real (length ?tv) \<ge> 0" using v1 v2 by simp
  have t: "t_statistic r = fdiv (Fin (mc - mt)) (Fin d)"
    using n0 s unfolding tf f welch_statistic_def fpow2_np_std v1 v2 mc mt d_def
    by (simp add: fsub_def)
  have md: "mean_difference r = Fin (mt - mc)"
    unfolding f mc mt by (simp add: fsub_def)
  show "fsgn (t_statistic r) = - fsgn (mean_difference r)"
    using fsgn_quotient[OF d0, of mc mt] by (simp add: t md)
qed

theorem t_statistic_control_minus_test_witness:
  "welch_t_test ex_df ''group'' ''value'' [''control'', ''test''] = Inr ex_result
   \<and> list_all is_fin (group ex_df ''group'' ''value'' (control_value ex_result))
   \<and> list_all is_fin (group ex_df ''group'' ''value'' (test_value ex_result))
   \<and> t_statistic ex_result = welch_statistic (mean_control ex_result) (mean_test ex_result)
        (std_control ex_result) (n_control ex_result) (std_test ex_result) (n_test ex_result)
   \<and> fsgn (t_statistic ex_result) = - fsgn (mean_difference ex_result)"
proof -
  have h2: "list_all is_fin (group ex_df ''group'' ''value'' (control_value ex_result))"
    by (simp add: ex_result_def ex_group_control)
  have h3: "list_all is_fin (group ex_df ''group'' ''value'' (test_value ex_result))"
    by (simp add: ex_result_def ex_group_test)
  from t_statistic_control_minus_test[OF ex_eval] ex_eval h2 h3 show ?thesis by blast
qed

subsection \<open>C2: two constant groups with equal means\<close>

text \<open>
  Claim C2 says that the entry point signals a StatisticalError when both groups have zero
  variance and equal means. On control 5, 5, 5 and test 5, 5, 5 the entry point raises
  nothing: it returns a result whose t-statistic is NaN. (By \<open>never_statistical_error\<close>
  the entry point raises a StatisticalError on no input at all.)
\<close>

theorem constant_groups_return_nan:
  "welch_t_test const_df ''group'' ''value'' [''control'', ''test''] = Inr const_result
   \<and> t_statistic const_result = NaN"
  by (simp add: const_eval) (simp add: const_result_def)

subsection \<open>C3: a group with one observation\<close>

text \<open>
  Claim C3 says that, whenever a group has one observation left once the missing values
  are dropped, the entry point fails with InvalidDataError about the minimum sample size.
  On the table where the control group has one observation and the only cell of the test
  group is missing, the failure is the one of the empty test group, which is checked
  before the sizes.
\<close>

theorem single_observation_counterexample:
  "length (group lone_df ''group'' ''value'' ''control'') = 1
   \<and> welch_t_test lone_df ''group'' ''value'' [''control'', ''test'']
       = Inl (Exn InvalidDataError ''No valid (non-NaN) data in test group'')
   \<and> welch_t_test lone_df ''group'' ''value'' [''control'', ''test'']
       \<noteq> Inl (Exn InvalidDataError ''Control group must have at least 2 observations'')
   \<and> welch_t_test lone_df ''group'' ''value'' [''control'', ''test'']
       \<noteq> Inl (Exn InvalidDataError ''Test group must have at least 2 observations'')"
  by (simp add: lone_groups welch_t_test_def welch_t_test_with_def welch_body_def reraise_def
        lone_validate lone_extract del: extract_groups.simps)

text \<open>
  Claim C3 as amended: for every input that passes the validation, where one of the two
  groups has exactly one observation once the missing values are dropped and the other has
  at least one, the entry point that raises fails with InvalidDataError, the message being
  the one on the minimum size of the control group when this one is short, and of the test
  group otherwise; whatever the primitive is, since it is not called. (By
  \<open>single_observation_invalid_data\<close> the failure is an InvalidDataError also when the
  other group is empty.)
\<close>

theorem single_observation_minimum_size:
  assumes v: "validate_inputs df ic dc [c, t] = Inr ()"
    and one: "length (group df ic dc c) = 1 \<or> length (group df ic dc t) = 1"
    and nc: "group df ic dc c \<noteq> []" and nt: "group df ic dc t \<noteq> []"
  shows "welch_t_test_with prim df ic dc [c, t] =
           Inl (Exn InvalidDataError
             (if length (group df ic dc c) < 2
              then ''Control group must have at least 2 observations''
              else ''Test group must have at least 2 observations''))"
proof -
  have sc: "select df ic c dc \<noteq> []" and st: "select df ic t dc \<noteq> []"
    using nc nt by (simp_all add: group_nonempty_select)
  have x: "extract_groups df ic dc [c, t] =
           Inl (Exn InvalidDataError
             (if length (group df ic dc c) < 2
              then ''Control group must have at least 2 observations''
              else ''Test group must have at least 2 observations''))"
    using sc st nc nt one by (auto simp: Let_def group_def)
  show ?thesis
    by (simp add: welch_t_test_with_def welch_body_def v x reraise_def del: extract_groups.simps)
qed

theorem single_observation_minimum_size_witness:
  "validate_inputs short_df ''group'' ''value'' [''control'', ''test''] = Inr ()
   \<and> length (group short_df ''group'' ''value'' ''control'') = 1
   \<and> group short_df ''group'' ''value'' ''control'' \<noteq> []
   \<and> group short_df ''group'' ''value'' ''test'' \<noteq> []
   \<and> welch_t_test short_df ''group'' ''value'' [''control'', ''test''] =
       Inl (Exn InvalidDataError ''Control group must have at least 2 observations'')"
proof -
  have h2: "length (group short_df ''group'' ''value'' ''control'') = 1
            \<or> length (group short_df ''group'' ''value'' ''test'') = 1"
    by (simp add: short_groups)
  have h3: "group short_df ''group'' ''value'' ''control'' \<noteq> []" by (simp add: short_groups)
  have h4: "group short_df ''group'' ''value'' ''test'' \<noteq> []" by (simp add: short_groups)
  show ?thesis
    using single_observation_minimum_size[OF short_validate h2 h3 h4,
        of "\<lambda>a b. Inr (ttest_ind a b)"] short_validate
    by (simp add: short_groups welch_t_test_def)
qed

subsection \<open>C4: the degrees of freedom\<close>

text \<open>
  Claim C4: for every call that returns, \<open>degrees_of_freedom\<close> is the formula of Welch and
  Satterthwaite on the sample variances (ddof = 1) of the control group and of the test
  group and on their counts once the missing values are dropped; the counts returned are
  these counts, and the two values returned are the two requested.
\<close>

theorem degrees_of_freedom_welch_satterthwaite:
  assumes "welch_t_test_with prim df ic dc ctv = Inr r"
  shows "degrees_of_freedom r =
           welch_satterthwaite (np_var (group df ic dc (control_value r))) (n_control r)
             (np_var (group df ic dc (test_value r))) (n_test r)
         \<and> n_control r = length (group df ic dc (control_value r))
         \<and> n_test r = length (group df ic dc (test_value r))
         \<and> ctv = [control_value r, test_value r]"
proof -
  from welch_success[OF assms] obtain c t tp where
    r: "r = compute_results tp (group df ic dc c) (group df ic dc t) c t" and ctv: "ctv = [c, t]"
    by blast
  have cv: "control_value r = c" "test_value r = t"
       "n_control r = length (group df ic dc c)" "n_test r = length (group df ic dc t)"
    by (simp_all add: r compute_results_def Let_def)
  show ?thesis unfolding cv using ctv r compute_results_df by simp
qed

theorem degrees_of_freedom_welch_satterthwaite_witness:
  "welch_t_test_with (\<lambda>a b. Inr (ttest_ind a b)) ex_df ''group'' ''value'' [''control'', ''test'']
     = Inr ex_result
   \<and> degrees_of_freedom ex_result =
       welch_satterthwaite (np_var (group ex_df ''group'' ''value'' (control_value ex_result)))
         (n_control ex_result)
         (np_var (group ex_df ''group'' ''value'' (test_value ex_result))) (n_test ex_result)"
proof -
  have h1: "welch_t_test_with (\<lambda>a b. Inr (ttest_ind a b)) ex_df ''group'' ''value''
              [''control'', ''test''] = Inr ex_result"
    using ex_eval by (simp add: welch_t_test_def)
  from degrees_of_freedom_welch_satterthwaite[OF h1] h1 show ?thesis by blast
qed

subsection \<open>C5: the bounds on the degrees of freedom\<close>

text \<open>
  Claim C5 says that every call that returns has
  \<open>min n_control n_test - 1 <= degrees_of_freedom <= n_control + n_test - 2\<close>. On control
  5, 5 and test 7, 7 the call returns (the t-statistic is minus infinity) and the degrees
  of freedom are 0/0, that is NaN, which no comparison holds for.
\<close>

theorem degrees_of_freedom_bounds_counterexample:
  "welch_t_test zero_df ''group'' ''value'' [''control'', ''test''] = Inr zero_result
   \<and> \<not> (fle (Fin (real (min (n_control zero_result) (n_test zero_result)) - 1))
            (degrees_of_freedom zero_result)
          \<and> fle (degrees_of_freedom zero_result)
              (Fin (real (n_control zero_result + n_test zero_result) - 2)))"
  by (simp add: zero_eval) (simp add: zero_result_def)

text \<open>
  Claim C5 as amended: for every call that returns, whose two standard deviations are
  finite and not both zero, if each floating-point operation of the formula of the degrees
  of freedom returns its exact result with a relative error of at most \<open>u < 1\<close> (as it does,
  with the unit roundoff for \<open>u\<close>, when the operation neither overflows nor underflows),
  then the degrees of freedom are at least
  \<open>(min n_control n_test - 1) * (1 - u)^4 / (1 + u)^3\<close> and at most
  \<open>(n_control + n_test - 2) * (1 + u)^4 / (1 - u)^3\<close>: the bounds of the claim hold up to
  the rounding of the operations, and not exactly (\<open>rounding_exceeds_exact_bound\<close>). The
  mean, the standard deviation and the primitive are any functions.
\<close>

theorem degrees_of_freedom_bounds_up_to_rounding:
  fixes rnd :: "real \<Rightarrow> real"
  assumes ok: "welch_t_test_fp rnd mean std prim df ic dc ctv = Inr r"
    and sc: "std_control r = Fin s1" and st: "std_test r = Fin s2"
    and nz: "s1 \<noteq> 0 \<or> s2 \<noteq> 0"
    and acc: "list_all (rel_err u rnd) (df_operands rnd s1 (n_control r) s2 (n_test r))"
    and u0: "0 \<le> u" and u1: "u < 1"
  shows "fle (Fin ((real (min (n_control r) (n_test r)) - 1) * ((1 - u) ^ 4 / (1 + u) ^ 3)))
           (degrees_of_freedom r)
       \<and> fle (degrees_of_freedom r)
           (Fin ((real (n_control r + n_test r) - 2) * ((1 + u) ^ 4 / (1 - u) ^ 3)))"
proof -
  from welch_success_fp[OF ok] obtain c t tp where
    r: "r = compute_results_fp rnd mean std tp (group df ic dc c) (group df ic dc t) c t"
    and lc: "2 \<le> length (group df ic dc c)" and lt: "2 \<le> length (group df ic dc t)"
    by blast
  have f: "n_control r = length (group df ic dc c)" "n_test r = length (group df ic dc t)"
       "degrees_of_freedom r = welch_df_fp rnd (std_control r) (length (group df ic dc c))
          (std_test r) (length (group df ic dc t))"
    by (simp_all add: r compute_results_fp_def Let_def)
  show ?thesis
    unfolding f sc st by (rule welch_df_fp_bounds[OF acc[unfolded f] u0 u1 nz lc lt])
qed

theorem degrees_of_freedom_bounds_up_to_rounding_witness:
  "welch_t_test_fp (\<lambda>x. x * (9 / 8)) np_mean np_std (\<lambda>a b. Inr (ttest_ind a b)) ex_df
     ''group'' ''value'' [''control'', ''test''] = Inr ex_result_fp
   \<and> std_control ex_result_fp = Fin (sqrt 18) \<and> std_test ex_result_fp = Fin (sqrt 32)
   \<and> sqrt 18 \<noteq> 0
   \<and> list_all (rel_err (1 / 8) (\<lambda>x. x * (9 / 8)))
        (df_operands (\<lambda>x. x * (9 / 8)) (sqrt 18) (n_control ex_result_fp) (sqrt 32)
           (n_test ex_result_fp))
   \<and> (0::real) \<le> 1 / 8 \<and> (1::real) / 8 < 1
   \<and> fle (Fin ((real (min (n_control ex_result_fp) (n_test ex_result_fp)) - 1)
                 * ((1 - 1 / 8) ^ 4 / (1 + 1 / 8) ^ 3)))
        (degrees_of_freedom ex_result_fp)
   \<and> fle (degrees_of_freedom ex_result_fp)
        (Fin ((real (n_control ex_result_fp + n_test ex_result_fp) - 2)
                 * ((1 + 1 / 8) ^ 4 / (1 - 1 / 8) ^ 3)))"
proof -
  have h1: "welch_t_test_fp (\<lambda>x. x * (9 / 8)) np_mean np_std (\<lambda>a b. Inr (ttest_ind a b)) ex_df
              ''group'' ''value'' [''control'', ''test''] = Inr ex_result_fp"
    by (simp add: welch_t_test_fp_def reraise_def ex_validate ex_extract ex_result_fp_def
          del: extract_groups.simps)
  have h2: "std_control ex_result_fp = Fin (sqrt 18)"
    by (simp add: ex_result_fp_def compute_results_fp_def Let_def np_std_def ex_var)
  have h3: "std_test ex_result_fp = Fin (sqrt 32)"
    by (simp add: ex_result_fp_def compute_results_fp_def Let_def np_std_def ex_var)
  have h4: "sqrt 18 \<noteq> 0" by simp
  have e: "rel_err (1 / 8) (\<lambda>x. x * (9 / 8)) z" for z :: real
  proof -
    have "z * (9 / 8) - z = z / 8" by simp
    then show ?thesis by (simp add: rel_err_def)
  qed
  have h5: "list_all (rel_err (1 / 8) (\<lambda>x. x * (9 / 8)))
        (df_operands (\<lambda>x. x * (9 / 8)) (sqrt 18) (n_control ex_result_fp) (sqrt 32)
           (n_test ex_result_fp))"
    using e by (simp add: list_all_iff)
  have h6: "(0::real) \<le> 1 / 8" by simp
  have h7: "(1::real) / 8 < 1" by simp
  from degrees_of_freedom_bounds_up_to_rounding[OF h1 h2 h3 disjI1[OF h4] h5 h6 h7]
    h1 h2 h3 h4 h5 h6 h7
  show ?thesis by blast
qed

subsection \<open>C6: more than two distinct values in the grouping column\<close>

text \<open>
  Claim C6: for every table that has the two named columns and more than 2 distinct
  values in the grouping column, the entry point fails with InvalidDataError, the message
  holding the number of distinct values in decimal, whatever \<open>control_test_values\<close> is
  (of any length), and whatever the primitive is. The example is a call with an empty
  \<open>control_test_values\<close>.
\<close>

theorem distinct_count_checked_first:
  assumes ic: "ic \<in> set (columns df)" and dc: "dc \<in> set (columns df)"
    and n: "2 < nunique df ic"
  shows "welch_t_test_with prim df ic dc ctv =
           Inl (Exn InvalidDataError
             (''Independent variable column has '' @ str_nat (nunique df ic)
              @ '' distinct values. Only 2 are allowed for t-test.''))"
proof -
  have "rows df \<noteq> []" using n nunique_rows[of df ic] by simp
  moreover have "columns df \<noteq> []" using ic by auto
  ultimately have ne: "\<not> empty_df df" by (simp add: empty_df_def)
  have v: "validate_inputs df ic dc ctv =
           Inl (Exn InvalidDataError
             (''Independent variable column has '' @ str_nat (nunique df ic)
              @ '' distinct values. Only 2 are allowed for t-test.''))"
    using ne ic dc n by (simp add: validate_inputs_def)
  show ?thesis
    by (simp add: welch_t_test_with_def welch_body_def v reraise_def)
qed

theorem distinct_count_checked_first_witness:
  "''group'' \<in> set (columns three_df) \<and> ''value'' \<in> set (columns three_df)
   \<and> 2 < nunique three_df ''group''
   \<and> welch_t_test three_df ''group'' ''value'' [] =
       Inl (Exn InvalidDataError
         ''Independent variable column has 3 distinct values. Only 2 are allowed for t-test.'')"
proof -
  have h1: "''group'' \<in> set (columns three_df)" by (simp add: three_df_def mk_df_def)
  have h2: "''value'' \<in> set (columns three_df)" by (simp add: three_df_def mk_df_def)
  have h3: "2 < nunique three_df ''group''" by (simp add: three_nunique)
  show ?thesis
    using distinct_count_checked_first[OF h1 h2 h3, of "\<lambda>a b. Inr (ttest_ind a b)" "[]"] h1 h2 h3
    by (simp add: welch_t_test_def three_nunique digit_char_def)
qed

subsection \<open>C7: exceptions of the calculation step\<close>

text \<open>
  Claim C7: when the validation and the extraction have passed and the primitive raises
  an exception, the entry point raises this very exception if its class is
  InvalidColumnError, InvalidDataError or one of their subclasses, and otherwise a
  WelchTTestError whose message is \<open>T-test calculation failed: \<close> followed by the message
  of the exception; in both cases the class of what is raised belongs to the hierarchy of
  the library. (By \<open>errors_in_taxonomy\<close> this holds of every exception the entry point
  raises.)
\<close>

theorem calculation_errors_wrapped:
  assumes v: "validate_inputs df ic dc ctv = Inr ()"
    and x: "extract_groups df ic dc ctv = Inr (cv, tv, c, t)"
    and p: "prim cv tv = Inl e0"
  shows "welch_t_test_with prim df ic dc ctv =
           Inl (if subclass_of (cls e0) InvalidColumnError \<or> subclass_of (cls e0) InvalidDataError
                then e0
                else Exn WelchTTestError (''T-test calculation failed: '' @ msg e0))
       \<and> subclass_of
           (cls (if subclass_of (cls e0) InvalidColumnError \<or> subclass_of (cls e0) InvalidDataError
                 then e0
                 else Exn WelchTTestError (''T-test calculation failed: '' @ msg e0)))
           WelchTTestError"
proof -
  have b: "welch_body prim df ic dc ctv = Inl e0"
    by (simp add: welch_body_def v x p del: extract_groups.simps)
  have r: "welch_t_test_with prim df ic dc ctv =
           Inl (if subclass_of (cls e0) InvalidColumnError \<or> subclass_of (cls e0) InvalidDataError
                then e0
                else Exn WelchTTestError (''T-test calculation failed: '' @ msg e0))"
    by (simp add: welch_t_test_with_def b reraise_def)
  from r have "subclass_of
           (cls (if subclass_of (cls e0) InvalidColumnError \<or> subclass_of (cls e0) InvalidDataError
                 then e0
                 else Exn WelchTTestError (''T-test calculation failed: '' @ msg e0)))
           WelchTTestError"
    unfolding welch_t_test_with_def by (rule reraise_class)
  with r show ?thesis by simp
qed

theorem calculation_errors_wrapped_witness:
  "validate_inputs ex_df ''group'' ''value'' [''control'', ''test''] = Inr ()
   \<and> extract_groups ex_df ''group'' ''value'' [''control'', ''test'']
       = Inr ([Fin 0, Fin 6], [Fin 10, Fin 18], ''control'', ''test'')
   \<and> failing_prim [Fin 0, Fin 6] [Fin 10, Fin 18] = Inl (Exn (Foreign ''ValueError'') ''bad input'')
   \<and> welch_t_test_with failing_prim ex_df ''group'' ''value'' [''control'', ''test'']
       = Inl (Exn WelchTTestError ''T-test calculation failed: bad input'')"
proof -
  have p: "failing_prim [Fin 0, Fin 6] [Fin 10, Fin 18] = Inl (Exn (Foreign ''ValueError'') ''bad input'')"
    by (simp add: failing_prim_def)
  show ?thesis
    using calculation_errors_wrapped[where prim = failing_prim, OF ex_validate ex_extract p]
      ex_validate ex_extract p
    by (simp del: extract_groups.simps)
qed

subsection \<open>C8: the difference of the means\<close>

text \<open>
  Claim C8: for every call that returns, \<open>mean_difference\<close> is the float subtraction of
  the returned \<open>mean_control\<close> from the returned \<open>mean_test\<close>: the very same value, since
  the field is computed by this one subtraction from the two values that are returned.
\<close>

theorem mean_difference_exact:
  assumes "welch_t_test_with prim df ic dc ctv = Inr r"
  shows "mean_difference r = fsub (mean_test r) (mean_control r)"
proof -
  from welch_success[OF assms] obtain c t tp where
    r: "r = compute_results tp (group df ic dc c) (group df ic dc t) c t"
    by blast
  show ?thesis by (simp add: r compute_results_def Let_def)
qed

theorem mean_difference_exact_witness:
  "welch_t_test_with (\<lambda>a b. Inr (ttest_ind a b)) ex_df ''group'' ''value'' [''control'', ''test'']
     = Inr ex_result
   \<and> mean_difference ex_result = fsub (mean_test ex_result) (mean_control ex_result)"
proof -
  have h1: "welch_t_test_with (\<lambda>a b. Inr (ttest_ind a b)) ex_df ''group'' ''value''
              [''control'', ''test''] = Inr ex_result"
    using ex_eval by (simp add: welch_t_test_def)
  from mean_difference_exact[OF h1] h1 show ?thesis by blast
qed

subsection \<open>C10: the permissive variant never raises\<close>

text \<open>
  Claim C10: on every input, and whatever the primitive does (it may raise), the
  permissive variant returns: either the mapping with the single key \<open>error\<close> or the
  result with all its fields.
\<close>

theorem script_never_raises:
  "(\<exists>m. welch_t_test_script_with prim df ic dc ctv = Inr (ErrorDict m))
   \<or> (\<exists>r. welch_t_test_script_with prim df ic dc ctv = Inr (Results r))"
proof (cases "script_body prim df ic dc ctv")
  case (Inl e)
  then show ?thesis by (simp add: welch_t_test_script_with_def)
next
  case (Inr d)
  then show ?thesis by (cases d) (simp_all add: welch_t_test_script_with_def)
qed

end
